theory Spec2Isabelle
  imports Main
begin

unbundle bit_operations_syntax

chapter \<open>Address lifecycle orchestration: IPAM, route injection and commit polling\<close>

section \<open>The \<^verbatim>\<open>ipaddress\<close> library, IPv4 part\<close>

text \<open>
  The services store addresses as strings and hand them to Python's \<^verbatim>\<open>ipaddress\<close>
  module. An IPv4 address is its integer value (\<^verbatim>\<open>IPv4Address._ip\<close>, below \<open>2 ^ 32\<close>),
  a network is its network address and prefix length. Parsing follows CPython 3.11:
  four octets separated by dots, each one to three ASCII digits, no leading zero,
  at most 255. The model is of IPv4 pools. An IPv6 literal given as an address is no
  IPv4 address here; the source parses it and then finds it in none of the IPv4 networks,
  which ends in the same branch in every function below but \<^verbatim>\<open>allocate_ip\<close>, where the
  detail of the status 400 differs.
\<close>

definition is_digit :: "char \<Rightarrow> bool" where
  "is_digit c = (c \<in> set ''0123456789'')"

definition digit_val :: "char \<Rightarrow> nat" where
  "digit_val c = of_char c - 48"

definition digit_char :: "nat \<Rightarrow> char" where
  "digit_char d = ''0123456789'' ! d"

text \<open>\<^verbatim>\<open>int(s, 10)\<close> on a string of digits, and \<^verbatim>\<open>str(n)\<close> on a natural number.\<close>

definition int_of_str :: "string \<Rightarrow> nat" where
  "int_of_str s = foldl (\<lambda>acc c. 10 * acc + digit_val c) 0 s"

fun str_nat :: "nat \<Rightarrow> string" where
  "str_nat n = (if n < 10 then [digit_char n] else str_nat (n div 10) @ [digit_char (n mod 10)])"

declare str_nat.simps [simp del]

text \<open>\<^verbatim>\<open>s.split(sep)\<close> for a one-character separator: never empty, one more part than separators.\<close>

fun split_on :: "char \<Rightarrow> string \<Rightarrow> string list" where
  "split_on sep [] = [[]]"
| "split_on sep (c # cs) =
     (if c = sep then [] # split_on sep cs
      else (case split_on sep cs of [] \<Rightarrow> [[c]] | p # ps \<Rightarrow> (c # p) # ps))"

text \<open>\<^verbatim>\<open>s.replace(a, b)\<close> for single characters, and \<^verbatim>\<open>s.startswith(prefix)\<close>.\<close>

definition replace_char :: "char \<Rightarrow> char \<Rightarrow> string \<Rightarrow> string" where
  "replace_char a b s = map (\<lambda>c. if c = a then b else c) s"

definition startswith :: "string \<Rightarrow> string \<Rightarrow> bool" where
  "startswith s p = (take (length p) s = p)"

text \<open>\<^verbatim>\<open>IPv4Address._parse_octet\<close>; \<open>None\<close> is the \<^verbatim>\<open>ValueError\<close>.\<close>

definition parse_octet :: "string \<Rightarrow> nat option" where
  "parse_octet octet_str =
     (if octet_str = [] then None
      else if \<not> list_all is_digit octet_str then None
      else if length octet_str > 3 then None
      else if octet_str \<noteq> ''0'' \<and> hd octet_str = CHR ''0'' then None
      else if int_of_str octet_str > 255 then None
      else Some (int_of_str octet_str))"

text \<open>\<^verbatim>\<open>IPv4Address._ip_int_from_string\<close>; \<open>None\<close> is the \<^verbatim>\<open>AddressValueError\<close>.\<close>

definition ip_int_from_string :: "string \<Rightarrow> nat option" where
  "ip_int_from_string ip_str =
     (if ip_str = [] then None
      else (case split_on CHR ''.'' ip_str of
              [o1, o2, o3, o4] \<Rightarrow>
                (case (parse_octet o1, parse_octet o2, parse_octet o3, parse_octet o4) of
                   (Some a, Some b, Some c, Some d) \<Rightarrow> Some (((a * 256 + b) * 256 + c) * 256 + d)
                 | _ \<Rightarrow> None)
            | _ \<Rightarrow> None))"

text \<open>\<^verbatim>\<open>str(IPv4Address(a))\<close>: the four bytes, big end first, in decimal.\<close>

definition ipv4_str :: "nat \<Rightarrow> string" where
  "ipv4_str a =
     str_nat (a div 16777216 mod 256) @ ''.'' @ str_nat (a div 65536 mod 256) @ ''.'' @
     str_nat (a div 256 mod 256) @ ''.'' @ str_nat (a mod 256)"

record ipv4_network =
  network_address :: nat
  prefixlen :: nat

definition ALL_ONES :: nat where
  "ALL_ONES = 4294967295"

text \<open>
  \<^verbatim>\<open>_ip_int_from_prefix\<close>: \<^verbatim>\<open>ALL_ONES ^ (ALL_ONES >> prefixlen)\<close>, the \<open>prefixlen\<close> high bits
  of 32, which is \<open>2 ^ 32 - 2 ^ (32 - prefixlen)\<close>.
\<close>

definition netmask :: "nat \<Rightarrow> nat" where
  "netmask p = 2 ^ 32 - 2 ^ (32 - p)"

definition broadcast_address :: "ipv4_network \<Rightarrow> nat" where
  "broadcast_address n = network_address n + (2 ^ (32 - prefixlen n) - 1)"

text \<open>\<^verbatim>\<open>address in network\<close>: \<^verbatim>\<open>other._ip & self.netmask._ip == self.network_address._ip\<close>.\<close>

definition contains :: "ipv4_network \<Rightarrow> nat \<Rightarrow> bool" where
  "contains n a = (a AND netmask (prefixlen n) = network_address n)"

text \<open>
  \<^verbatim>\<open>network.hosts()\<close>: the addresses strictly between network and broadcast address,
  ascending; a /31 yields both of its addresses and a /32 its single address.
\<close>

definition hosts :: "ipv4_network \<Rightarrow> nat list" where
  "hosts n =
     (if prefixlen n = 31 then [network_address n ..< broadcast_address n + 1]
      else if prefixlen n = 32 then [network_address n]
      else [network_address n + 1 ..< broadcast_address n])"

text \<open>
  The mask after the slash: \<^verbatim>\<open>_prefix_from_prefix_string\<close> (decimal digits, at most 32),
  and when that fails \<^verbatim>\<open>_prefix_from_ip_string\<close> (a dotted netmask, or else a dotted
  hostmask).
\<close>

definition prefix_from_ip_int :: "nat \<Rightarrow> nat option" where
  "prefix_from_ip_int m = List.find (\<lambda>p. netmask p = m) (rev [0 ..< 33])"

definition prefix_from_prefix_string :: "string \<Rightarrow> nat option" where
  "prefix_from_prefix_string s =
     (if s = [] \<or> \<not> list_all is_digit s then None
      else if int_of_str s \<le> 32 then Some (int_of_str s) else None)"

definition prefix_from_ip_string :: "string \<Rightarrow> nat option" where
  "prefix_from_ip_string s =
     (case ip_int_from_string s of
        None \<Rightarrow> None
      | Some m \<Rightarrow>
          (case prefix_from_ip_int m of
             Some p \<Rightarrow> Some p
           | None \<Rightarrow> prefix_from_ip_int (m XOR ALL_ONES)))"

definition make_netmask :: "string \<Rightarrow> nat option" where
  "make_netmask s =
     (case prefix_from_prefix_string s of
        Some p \<Rightarrow> Some p
      | None \<Rightarrow> prefix_from_ip_string s)"

text \<open>
  \<^verbatim>\<open>ipaddress.ip_network(s, strict)\<close> for IPv4; \<open>None\<close> is the \<^verbatim>\<open>ValueError\<close>. With
  \<open>strict\<close> an address with host bits set is refused, without it the host bits are
  cleared.
\<close>

definition ip_network :: "string \<Rightarrow> bool \<Rightarrow> ipv4_network option" where
  "ip_network s strict =
     (case split_on CHR ''/'' s of
        [addr_str] \<Rightarrow>
          (case ip_int_from_string addr_str of
             None \<Rightarrow> None
           | Some packed \<Rightarrow> Some \<lparr>network_address = packed, prefixlen = 32\<rparr>)
      | [addr_str, mask_str] \<Rightarrow>
          (case ip_int_from_string addr_str of
             None \<Rightarrow> None
           | Some packed \<Rightarrow>
               (case make_netmask mask_str of
                  None \<Rightarrow> None
                | Some p \<Rightarrow>
                    if packed AND netmask p \<noteq> packed
                    then (if strict then None
                          else Some \<lparr>network_address = packed AND netmask p, prefixlen = p\<rparr>)
                    else Some \<lparr>network_address = packed, prefixlen = p\<rparr>))
      | _ \<Rightarrow> None)"

section \<open>The IPAM service (\<^verbatim>\<open>baker_street_ipam_service.py\<close>)\<close>

subsection \<open>Tables, exceptions and the world around the service\<close>

text \<open>
  The rows of the tables \<^verbatim>\<open>subnets\<close>, \<^verbatim>\<open>devices\<close> and \<^verbatim>\<open>ip_addresses\<close>, with the
  columns the service reads or writes. The primary keys (\<^verbatim>\<open>id\<close> in the source) are
  \<open>sn_id\<close>, \<open>dev_id\<close> and \<open>ip_id\<close>. Timestamps are natural numbers.
\<close>

record subnet =
  sn_id :: nat
  sn_name :: string
  network_cidr :: string
  zone :: string
  vlan_id :: "nat option"
  gateway :: "string option"

record device =
  dev_id :: nat
  hostname :: string

record ip_row =
  ip_id :: nat
  ip_address :: string
  subnet_id :: nat
  device_id :: "nat option"
  status :: string
  allocated_at :: "nat option"
  expires_at :: "nat option"
  ip_notes :: "string option"

text \<open>
  The exceptions that travel through the service. The handlers at the end of
  \<^verbatim>\<open>allocate_ip\<close> and \<^verbatim>\<open>release_ip\<close> build \<^verbatim>\<open>HTTPException(status_code=500, detail=str(e))\<close>;
  \<open>StrOf e\<close> stands for the text \<^verbatim>\<open>str(e)\<close>.
\<close>

datatype exn =
    HTTPException nat detail
  | ValueError
  | IntegrityError
and detail =
    Msg string
  | StrOf exn

fun status_code :: "exn \<Rightarrow> nat option" where
  "status_code (HTTPException c d) = Some c"
| "status_code ValueError = None"
| "status_code IntegrityError = None"

text \<open>
  The state: the three tables and the serial of \<^verbatim>\<open>ip_addresses.id\<close>, and what the
  service has caused outside: the records created through the DNS API
  (zone, fqdn, address), the requests the route-injection service has accepted
  (fqdn, address), posted and deleted, and the Redis cache of allocation rows.
\<close>

record ipam =
  subnets :: "subnet list"
  devices :: "device list"
  ip_addresses :: "ip_row list"
  next_ip_id :: nat
  dns_records :: "(string \<times> string \<times> string) list"
  route_posts :: "(string \<times> string) list"
  route_deletes :: "(string \<times> string) list"
  redis :: "string \<rightharpoonup> ip_row"

text \<open>
  What the surroundings do during one call: whether the DNS API, the route-injection
  service and Redis answer (when one does not, the client raises), and the clock
  (\<^verbatim>\<open>datetime.utcnow()\<close>).
\<close>

record env =
  dns_up :: bool
  route_up :: bool
  redis_up :: bool
  now :: nat

text \<open>Python truthiness of an optional string and of an optional integer.\<close>

fun truthy_str :: "string option \<Rightarrow> bool" where
  "truthy_str None = False"
| "truthy_str (Some s) = (s \<noteq> [])"

fun truthy_int :: "nat option \<Rightarrow> bool" where
  "truthy_int None = False"
| "truthy_int (Some n) = (n \<noteq> 0)"

subsection \<open>The managed-range check of the IPAM service\<close>

text \<open>
  \<^verbatim>\<open>IPAMService._is_cyber_range_ip\<close> and \<^verbatim>\<open>RouteInjectionService.is_cyber_range_ip\<close> walk a
  list of CIDR strings; any \<^verbatim>\<open>ValueError\<close> (address or network that does not parse) ends in the bare
  \<^verbatim>\<open>except\<close> and gives \<open>False\<close>.
\<close>

fun in_networks :: "nat \<Rightarrow> string list \<Rightarrow> bool" where
  "in_networks ip [] = False"
| "in_networks ip (network_str # rest) =
     (case ip_network network_str False of
        None \<Rightarrow> False
      | Some network \<Rightarrow> if contains network ip then True else in_networks ip rest)"

definition cidr_list_check :: "string list \<Rightarrow> string \<Rightarrow> bool" where
  "cidr_list_check networks ip_str =
     (case ip_int_from_string ip_str of
        None \<Rightarrow> False
      | Some ip \<Rightarrow> in_networks ip networks)"

definition ipam_cyber_range_networks :: "string list" where
  "ipam_cyber_range_networks =
     [''10.0.0.0/8'', ''172.20.0.0/16'', ''172.21.0.0/16'', ''192.168.0.0/16'']"

definition ipam_is_cyber_range_ip :: "string \<Rightarrow> bool" where
  "ipam_is_cyber_range_ip ip_str = cidr_list_check ipam_cyber_range_networks ip_str"

subsection \<open>\<^verbatim>\<open>IPAMService.allocate_ip\<close>\<close>

definition taken :: "string \<Rightarrow> bool" where
  "taken st = (st = ''allocated'' \<or> st = ''reserved'')"

text \<open>Lines 313 to 320: the preferred address must parse and lie in the network.\<close>

definition check_preferred :: "ipv4_network \<Rightarrow> string option \<Rightarrow> exn option" where
  "check_preferred network preferred_ip =
     (if truthy_str preferred_ip then
        (case ip_int_from_string (the preferred_ip) of
           None \<Rightarrow> Some (HTTPException 400 (Msg ''Invalid preferred IP format''))
         | Some ip \<Rightarrow>
             if \<not> contains network ip
             then Some (HTTPException 400 (Msg ''Preferred IP not in subnet''))
             else None)
      else None)"

text \<open>
  Lines 322 to 347: the preferred address unless a row holds it as allocated or
  reserved; otherwise the first host of the network whose text is no allocated or
  reserved row of this subnet.
\<close>

definition find_ip :: "ipam \<Rightarrow> ipv4_network \<Rightarrow> nat \<Rightarrow> string option \<Rightarrow> exn + string" where
  "find_ip w network sid preferred_ip =
     (if truthy_str preferred_ip then
        (case List.find (\<lambda>r. ip_address r = the preferred_ip \<and> taken (status r)) (ip_addresses w) of
           Some existing \<Rightarrow> Inl (HTTPException 409 (Msg ''Preferred IP already allocated''))
         | None \<Rightarrow> Inr (the preferred_ip))
      else
        (let allocated_set =
               set (map ip_address
                      (filter (\<lambda>r. subnet_id r = sid \<and> taken (status r)) (ip_addresses w)))
         in case List.find (\<lambda>ip. ipv4_str ip \<notin> allocated_set) (hosts network) of
              Some ip \<Rightarrow> Inr (ipv4_str ip)
            | None \<Rightarrow> Inl (HTTPException 507 (Msg ''No available IPs in subnet''))))"

text \<open>
  Lines 349 to 361: \<^verbatim>\<open>session.add\<close> and \<^verbatim>\<open>session.commit\<close>. The table declares
  \<^verbatim>\<open>ip_address\<close> unique and \<^verbatim>\<open>device_id\<close> a foreign key of \<^verbatim>\<open>devices.id\<close>; the database
  refuses a row that breaks either with \<^verbatim>\<open>IntegrityError\<close>.
\<close>

definition insert_ip :: "ipam \<Rightarrow> ip_row \<Rightarrow> exn + ipam" where
  "insert_ip w r =
     (if ip_address r \<in> set (map ip_address (ip_addresses w)) then Inl IntegrityError
      else if (case device_id r of None \<Rightarrow> False | Some d \<Rightarrow> d \<notin> set (map dev_id (devices w)))
      then Inl IntegrityError
      else Inr (w\<lparr>ip_addresses := ip_addresses w @ [r], next_ip_id := Suc (next_ip_id w)\<rparr>))"

text \<open>
  Lines 363 to 374: the three side effects. Each helper catches every exception of its
  client and only logs it.
\<close>

definition create_dns_record :: "env \<Rightarrow> string \<Rightarrow> string \<Rightarrow> string \<Rightarrow> ipam \<Rightarrow> ipam" where
  "create_dns_record e host ip z w =
     (if dns_up e then w\<lparr>dns_records := dns_records w @ [(z, host @ ''.'' @ z, ip)]\<rparr> else w)"

definition route_fqdn :: "string \<Rightarrow> nat option \<Rightarrow> string" where
  "route_fqdn ip did =
     (if truthy_int did then ''device-'' @ str_nat (the did) @ ''.bakerstreetlabs.local''
      else ''ip-'' @ replace_char CHR ''.'' CHR ''-'' ip @ ''.bakerstreetlabs.local'')"

definition trigger_route_injection :: "env \<Rightarrow> string \<Rightarrow> nat option \<Rightarrow> ipam \<Rightarrow> ipam" where
  "trigger_route_injection e ip did w =
     (if route_up e then w\<lparr>route_posts := route_posts w @ [(route_fqdn ip did, ip)]\<rparr> else w)"

definition cache_ip_allocation :: "env \<Rightarrow> ip_row \<Rightarrow> ipam \<Rightarrow> ipam" where
  "cache_ip_allocation e r w =
     (if redis_up e then w\<lparr>redis := (redis w)(''ipam:ip:'' @ ip_address r \<mapsto> r)\<rparr> else w)"

definition after_insert :: "env \<Rightarrow> subnet \<Rightarrow> ip_row \<Rightarrow> ipam \<Rightarrow> ipam" where
  "after_insert e sn r w =
     (let w1 = (if truthy_int (device_id r) then
                  (case List.find (\<lambda>d. dev_id d = the (device_id r)) (devices w) of
                     Some dev \<Rightarrow> create_dns_record e (hostname dev) (ip_address r) (zone sn) w
                   | None \<Rightarrow> w)
                else w);
          w2 = (if ipam_is_cyber_range_ip (ip_address r)
                then trigger_route_injection e (ip_address r) (device_id r) w1 else w1)
      in cache_ip_allocation e r w2)"

text \<open>The body of the \<^verbatim>\<open>try\<close> block, lines 305 to 385.\<close>

definition allocate_ip_try ::
  "env \<Rightarrow> ipam \<Rightarrow> nat \<Rightarrow> nat option \<Rightarrow> string option \<Rightarrow> string option \<Rightarrow> nat option
     \<Rightarrow> (exn + ip_row) \<times> ipam" where
  "allocate_ip_try e w sid did preferred_ip nts expires =
     (case List.find (\<lambda>s. sn_id s = sid) (subnets w) of
        None \<Rightarrow> (Inl (HTTPException 404 (Msg ''Subnet not found'')), w)
      | Some sn \<Rightarrow>
          (case ip_network (network_cidr sn) True of
             None \<Rightarrow> (Inl ValueError, w)
           | Some network \<Rightarrow>
               (case check_preferred network preferred_ip of
                  Some ex \<Rightarrow> (Inl ex, w)
                | None \<Rightarrow>
                    (case find_ip w network sid preferred_ip of
                       Inl ex \<Rightarrow> (Inl ex, w)
                     | Inr ip_to_allocate \<Rightarrow>
                         (let ip_record = \<lparr>ip_id = next_ip_id w, ip_address = ip_to_allocate,
                                subnet_id = sid, device_id = did, status = ''allocated'',
                                allocated_at = Some (now e), expires_at = expires, ip_notes = nts\<rparr>
                          in case insert_ip w ip_record of
                               Inl ex \<Rightarrow> (Inl ex, w)
                             | Inr w' \<Rightarrow> (Inr ip_record, after_insert e sn ip_record w'))))))"

text \<open>
  Lines 387 to 390: \<^verbatim>\<open>except Exception as e\<close> catches whatever the body raised, the
  \<^verbatim>\<open>HTTPException\<close>s of the body included, rolls the session back and raises status 500.
\<close>

definition allocate_ip ::
  "env \<Rightarrow> ipam \<Rightarrow> nat \<Rightarrow> nat option \<Rightarrow> string option \<Rightarrow> string option \<Rightarrow> nat option
     \<Rightarrow> (exn + ip_row) \<times> ipam" where
  "allocate_ip e w sid did preferred_ip nts expires =
     (case allocate_ip_try e w sid did preferred_ip nts expires of
        (Inl ex, w') \<Rightarrow> (Inl (HTTPException 500 (StrOf ex)), w')
      | (Inr r, w') \<Rightarrow> (Inr r, w'))"

subsection \<open>\<^verbatim>\<open>IPAMService.release_ip\<close>\<close>

text \<open>The first element that satisfies \<open>P\<close> is replaced by its image under \<open>f\<close>.\<close>

fun update_first :: "('a \<Rightarrow> bool) \<Rightarrow> ('a \<Rightarrow> 'a) \<Rightarrow> 'a list \<Rightarrow> 'a list" where
  "update_first P f [] = []"
| "update_first P f (x # xs) = (if P x then f x # xs else x # update_first P f xs)"

definition released :: "ip_row \<Rightarrow> ip_row" where
  "released r = r\<lparr>status := ''available'', allocated_at := None, expires_at := None, device_id := None\<rparr>"

text \<open>
  \<^verbatim>\<open>_remove_dns_record\<close> reaches \<^verbatim>\<open>remove_record_by_ip\<close>, which only logs; the removal of the
  route is a DELETE request to the route-injection service, its failure is logged.
\<close>

definition remove_route_injection :: "env \<Rightarrow> string \<Rightarrow> ipam \<Rightarrow> ipam" where
  "remove_route_injection e ip w =
     (if route_up e then w\<lparr>route_deletes := route_deletes w @ [(route_fqdn ip None, ip)]\<rparr> else w)"

definition release_ip_try :: "env \<Rightarrow> ipam \<Rightarrow> string \<Rightarrow> (exn + string) \<times> ipam" where
  "release_ip_try e w ip =
     (case List.find (\<lambda>r. ip_address r = ip \<and> status r = ''allocated'') (ip_addresses w) of
        None \<Rightarrow> (Inl (HTTPException 404 (Msg ''IP address not found or not allocated'')), w)
      | Some ip_record \<Rightarrow>
          (let w1 = w\<lparr>ip_addresses :=
                       update_first (\<lambda>r. ip_address r = ip \<and> status r = ''allocated'') released
                         (ip_addresses w)\<rparr>;
               w2 = (if ipam_is_cyber_range_ip ip then remove_route_injection e ip w1 else w1);
               w3 = cache_ip_allocation e (released ip_record) w2
           in (Inr (''IP address '' @ ip @ '' released successfully''), w3)))"

definition release_ip :: "env \<Rightarrow> ipam \<Rightarrow> string \<Rightarrow> (exn + string) \<times> ipam" where
  "release_ip e w ip =
     (case release_ip_try e w ip of
        (Inl ex, w') \<Rightarrow> (Inl (HTTPException 500 (StrOf ex)), w')
      | (Inr m, w') \<Rightarrow> (Inr m, w'))"

section \<open>The route-injection services\<close>

subsection \<open>The router, the DNS tool and the association cache\<close>

text \<open>
  Both services answer with a dictionary; it is kept as an association list of JSON
  values (of the nested answer of the DNS tool under \<^verbatim>\<open>dns_result\<close> only its success flag). An association is the route information cached in Redis under
  \<^verbatim>\<open>route:<route_name>\<close>.
\<close>

datatype json = B bool | S string

type_synonym reply = "(string \<times> json) list"

record route_info =
  ri_route_name :: string
  ri_fqdn :: string
  ri_ip_address :: string
  ri_zone :: string
  ri_created_at :: nat
  ri_status :: string

text \<open>
  The state around a route-injection service: the static routes of the router's
  candidate configuration (name to destination), the number of commit requests the
  router has accepted, the records added through the DNS tool (zone, fqdn, address,
  ttl) and the Redis cache.
\<close>

record router =
  static_routes :: "string \<rightharpoonup> string"
  commits :: nat
  dns :: "(string \<times> string \<times> string \<times> nat) list"
  cache :: "string \<rightharpoonup> route_info"

text \<open>
  What the surroundings do during one call. \<^verbatim>\<open>add_dns_record\<close>, \<^verbatim>\<open>create_static_route\<close>,
  \<^verbatim>\<open>delete_static_route\<close> and \<^verbatim>\<open>commit_configuration\<close> catch every exception and report
  failure in their result; \<^verbatim>\<open>commit_configuration\<close> returns \<open>True\<close> when the router
  answers the commit request with status \<^verbatim>\<open>success\<close> (it does not poll the job). A Redis
  call raises when Redis is down.
\<close>

record calls =
  dns_add_ok :: bool
  dns_add_error :: string
  create_ok :: bool
  delete_ok :: bool
  commit_ok :: bool
  cache_up :: bool
  cache_error :: string
  clock :: nat

text \<open>
  \<^verbatim>\<open>redis_client.get(key)\<close>: the call raises, or it answers with the cached value or with
  nothing.
\<close>

datatype 'a redis_reply = Raises | Answer 'a

definition redis_get :: "calls \<Rightarrow> router \<Rightarrow> string \<Rightarrow> route_info option redis_reply" where
  "redis_get c w key = (if cache_up c then Answer (cache w key) else Raises)"

subsection \<open>\<^verbatim>\<open>DNSWebhookHandler\<close> (\<^verbatim>\<open>route_injection_service.py\<close>)\<close>

text \<open>\<^verbatim>\<open>_is_cyber_range_ip\<close>: \<^verbatim>\<open>ip_address.startswith(("10.", "172.", "192.168."))\<close>.\<close>

definition webhook_is_cyber_range_ip :: "string \<Rightarrow> bool" where
  "webhook_is_cyber_range_ip ip =
     (startswith ip ''10.'' \<or> startswith ip ''172.'' \<or> startswith ip ''192.168.'')"

definition webhook_route_name :: "string \<Rightarrow> string \<Rightarrow> string" where
  "webhook_route_name fqdn ip =
     ''dns_'' @ replace_char CHR ''.'' CHR ''_'' fqdn @ ''_'' @ replace_char CHR ''.'' CHR ''_'' ip"

definition make_route_info :: "calls \<Rightarrow> string \<Rightarrow> string \<Rightarrow> string \<Rightarrow> string \<Rightarrow> route_info" where
  "make_route_info c name fqdn ip z =
     \<lparr>ri_route_name = name, ri_fqdn = fqdn, ri_ip_address = ip, ri_zone = z,
      ri_created_at = clock c, ri_status = ''active''\<rparr>"

definition handle_dns_record_created ::
  "calls \<Rightarrow> router \<Rightarrow> string \<Rightarrow> string \<Rightarrow> string \<Rightarrow> reply \<times> router" where
  "handle_dns_record_created c w z fqdn ip =
     (if \<not> webhook_is_cyber_range_ip ip then
        ([(''success'', B True),
          (''message'', S ''DNS record created, no route injection needed''),
          (''route_injected'', B False)], w)
      else
        (let route_name = webhook_route_name fqdn ip in
         if create_ok c then
           (let w1 = w\<lparr>static_routes := (static_routes w)(route_name \<mapsto> ip)\<rparr> in
            if commit_ok c then
              (let w2 = w1\<lparr>commits := Suc (commits w1)\<rparr> in
               if cache_up c then
                 ([(''success'', B True),
                   (''message'', S (''DNS record created and route injected for '' @ fqdn)),
                   (''route_injected'', B True),
                   (''route_name'', S route_name)],
                  w2\<lparr>cache := (cache w2)(''route:'' @ route_name \<mapsto>
                                           make_route_info c route_name fqdn ip z)\<rparr>)
               else
                 ([(''success'', B False),
                   (''message'', S (''Error: '' @ cache_error c)),
                   (''route_injected'', B False)], w2))
            else
              ([(''success'', B False),
                (''message'', S ''Route created but commit failed''),
                (''route_injected'', B False)], w1))
         else
           ([(''success'', B False),
             (''message'', S ''Route injection failed''),
             (''route_injected'', B False)], w)))"

definition handle_dns_record_deleted ::
  "calls \<Rightarrow> router \<Rightarrow> string \<Rightarrow> string \<Rightarrow> string \<Rightarrow> reply \<times> router" where
  "handle_dns_record_deleted c w z fqdn ip =
     (let route_name = webhook_route_name fqdn ip in
      case redis_get c w (''route:'' @ route_name) of
        Raises \<Rightarrow>
          ([(''success'', B False),
            (''message'', S (''Error: '' @ cache_error c)),
            (''route_removed'', B False)], w)
      | Answer None \<Rightarrow>
          ([(''success'', B True),
            (''message'', S ''Route not found in cache''),
            (''route_removed'', B False)], w)
      | Answer (Some route_info) \<Rightarrow>
             if delete_ok c then
               (let w1 = w\<lparr>static_routes := (static_routes w)(route_name := None)\<rparr> in
                if commit_ok c then
                  ([(''success'', B True),
                    (''message'', S (''DNS record deleted and route removed for '' @ fqdn)),
                    (''route_removed'', B True),
                    (''route_name'', S route_name)],
                   w1\<lparr>commits := Suc (commits w1),
                      cache := (cache w1)(''route:'' @ route_name := None)\<rparr>)
                else
                  ([(''success'', B False),
                    (''message'', S ''Route deleted but commit failed''),
                    (''route_removed'', B False)], w1))
             else
               ([(''success'', B False),
                 (''message'', S ''Route removal failed''),
                 (''route_removed'', B False)], w))"

subsection \<open>\<^verbatim>\<open>RouteInjectionService\<close> (\<^verbatim>\<open>enhanced_route_injection_service.py\<close>)\<close>

text \<open>
  The configuration values the service reads, with the defaults of the
  \<^verbatim>\<open>config_manager.get\<close> calls already applied.
\<close>

record config =
  cyber_range_networks :: "string list"
  auto_commit :: bool
  naming_prefix :: string
  include_zone :: bool
  include_timestamp :: bool
  separator :: string

definition enhanced_is_cyber_range_ip :: "config \<Rightarrow> string \<Rightarrow> bool" where
  "enhanced_is_cyber_range_ip cfg ip = cidr_list_check (cyber_range_networks cfg) ip"

text \<open>\<^verbatim>\<open>separator.join(parts)\<close>.\<close>

fun join :: "string \<Rightarrow> string list \<Rightarrow> string" where
  "join sep [] = []"
| "join sep [p] = p"
| "join sep (p # q # ps) = p @ sep @ join sep (q # ps)"

definition generate_route_name ::
  "config \<Rightarrow> calls \<Rightarrow> string \<Rightarrow> string \<Rightarrow> string option \<Rightarrow> string" where
  "generate_route_name cfg c fqdn ip z =
     join (separator cfg)
       ([naming_prefix cfg] @
        (if include_zone cfg \<and> truthy_str z then [replace_char CHR ''.'' CHR ''_'' (the z)] else []) @
        [replace_char CHR ''-'' CHR ''_'' (replace_char CHR ''.'' CHR ''_'' fqdn)] @
        [replace_char CHR ''.'' CHR ''_'' ip] @
        (if include_timestamp cfg then [str_nat (clock c)] else []))"

definition inject_route_for_dns_record ::
  "config \<Rightarrow> calls \<Rightarrow> router \<Rightarrow> string \<Rightarrow> string \<Rightarrow> string \<Rightarrow> nat \<Rightarrow> reply \<times> router" where
  "inject_route_for_dns_record cfg c w z fqdn ip ttl =
     (if \<not> enhanced_is_cyber_range_ip cfg ip then
        ([(''success'', B True),
          (''message'', S ''DNS record processed, no route injection needed''),
          (''route_injected'', B False)], w)
      else if \<not> dns_add_ok c then
        ([(''success'', B False),
          (''message'', S (''DNS record addition failed: '' @ dns_add_error c)),
          (''route_injected'', B False)], w)
      else
        (let w0 = w\<lparr>dns := dns w @ [(z, fqdn, ip, ttl)]\<rparr>;
             route_name = generate_route_name cfg c fqdn ip (Some z)
         in
         if create_ok c then
           (let w1 = w0\<lparr>static_routes := (static_routes w0)(route_name \<mapsto> ip)\<rparr>;
                w2 = (if auto_commit cfg \<and> commit_ok c then w1\<lparr>commits := Suc (commits w1)\<rparr>
                      else w1)
            in
            if cache_up c then
              ([(''success'', B True),
                (''message'', S (''DNS record added and route injected: '' @ fqdn)),
                (''route_injected'', B True),
                (''route_name'', S route_name),
                (''dns_result'', B True)],
               w2\<lparr>cache := (cache w2)(''route:'' @ route_name \<mapsto>
                                        make_route_info c route_name fqdn ip z)\<rparr>)
            else
              ([(''success'', B False),
                (''message'', S (''Error: '' @ cache_error c)),
                (''route_injected'', B False)], w2))
         else
           ([(''success'', B False),
             (''message'', S ''Route injection failed''),
             (''route_injected'', B False),
             (''dns_result'', B True)], w0)))"

definition remove_route_for_dns_record ::
  "config \<Rightarrow> calls \<Rightarrow> router \<Rightarrow> string \<Rightarrow> string \<Rightarrow> string \<Rightarrow> reply \<times> router" where
  "remove_route_for_dns_record cfg c w z fqdn ip =
     (let route_name = generate_route_name cfg c fqdn ip (Some z) in
      case redis_get c w (''route:'' @ route_name) of
        Raises \<Rightarrow>
          ([(''success'', B False),
            (''message'', S (''Error: '' @ cache_error c)),
            (''route_removed'', B False)], w)
      | Answer None \<Rightarrow>
          ([(''success'', B True),
            (''message'', S ''Route not found in cache''),
            (''route_removed'', B False)], w)
      | Answer (Some route_info) \<Rightarrow>
             if delete_ok c then
               (let w1 = w\<lparr>static_routes := (static_routes w)(route_name := None)\<rparr>;
                    w2 = (if auto_commit cfg \<and> commit_ok c then w1\<lparr>commits := Suc (commits w1)\<rparr>
                          else w1)
                in
                ([(''success'', B True),
                  (''message'', S (''Route removed for '' @ fqdn)),
                  (''route_removed'', B True),
                  (''route_name'', S route_name)],
                 w2\<lparr>cache := (cache w2)(''route:'' @ route_name := None)\<rparr>))
             else
               ([(''success'', B False),
                 (''message'', S ''Route removal failed''),
                 (''route_removed'', B False)], w))"

section \<open>Commit-job polling (\<^verbatim>\<open>commit_config\<close>)\<close>

text \<open>
  \<^verbatim>\<open>commit_config\<close> of \<^verbatim>\<open>upload_pan_os_config.py\<close> and of \<^verbatim>\<open>generate_mgmt_cert.py\<close> (the two
  bodies are the same but for their messages). An HTTP exchange ends in a
  \<^verbatim>\<open>RequestException\<close> (also from \<^verbatim>\<open>raise_for_status\<close>), in a body that is no XML
  (\<^verbatim>\<open>ET.fromstring\<close> raises \<^verbatim>\<open>ParseError\<close>, which the function does not catch), or in a
  document.
\<close>

datatype 'a http = RequestException | ParseError | Body 'a

text \<open>
  An element of \<^verbatim>\<open>xml.etree.ElementTree\<close>: tag, attributes, text (\<open>None\<close> when the element
  has none) and children. \<open>iter\<close> lists an element and its descendants in document order;
  \<^verbatim>\<open>e.find('.//tag')\<close> is the first descendant of \<open>e\<close> with that tag, in document order, and
  \<^verbatim>\<open>e.get(key)\<close> the attribute.
\<close>

datatype xml =
  Element (elem_tag: string) (elem_attrib: "(string \<times> string) list")
    (elem_text: "string option") (elem_children: "xml list")

fun iter :: "xml \<Rightarrow> xml list" where
  "iter (Element t a x cs) = Element t a x cs # concat (map iter cs)"

definition find_first :: "xml \<Rightarrow> string \<Rightarrow> xml option" where
  "find_first e t = List.find (\<lambda>x. elem_tag x = t) (concat (map iter (elem_children e)))"

definition get_attrib :: "xml \<Rightarrow> string \<Rightarrow> string option" where
  "get_attrib e key = map_of (elem_attrib e) key"

datatype outcome = Return bool | Raise_ParseError

text \<open>
  The \<^verbatim>\<open>while True\<close> loop, lines 174 to 206. \<open>polls n\<close> is the exchange of the poll
  number \<open>n\<close>; \<open>slept\<close> adds up the \<^verbatim>\<open>time.sleep(2)\<close> calls. The status is the text of
  \<^verbatim>\<open>status_root.find('.//status')\<close> and the result the text of
  \<^verbatim>\<open>status_root.find('.//result')\<close>, each the first element of that tag in the answer. The
  loop has no other exit than a \<^verbatim>\<open>return\<close> or an exception: where it runs forever the value
  is \<open>None\<close>.
\<close>

partial_function (option) poll_job ::
  "(nat \<Rightarrow> xml http) \<Rightarrow> nat \<Rightarrow> nat \<Rightarrow> (outcome \<times> nat) option" where
  "poll_job polls n slept =
     (case polls n of
        RequestException \<Rightarrow> Some (Return False, slept)
      | ParseError \<Rightarrow> Some (Raise_ParseError, slept)
      | Body status_root \<Rightarrow>
          (case find_first status_root ''status'' of
             None \<Rightarrow> Some (Return False, slept)
           | Some job_status_elem \<Rightarrow>
               if elem_text job_status_elem = Some ''FIN'' then
                 (case find_first status_root ''result'' of
                    None \<Rightarrow> Some (Return False, slept)
                  | Some result_elem \<Rightarrow> Some (Return (elem_text result_elem = Some ''OK''), slept))
               else poll_job polls (Suc n) (slept + 2)))"

definition commit_config :: "xml http \<Rightarrow> (nat \<Rightarrow> xml http) \<Rightarrow> (outcome \<times> nat) option" where
  "commit_config answer polls =
     (case answer of
        RequestException \<Rightarrow> Some (Return False, 0)
      | ParseError \<Rightarrow> Some (Raise_ParseError, 0)
      | Body root \<Rightarrow>
          if get_attrib root ''status'' \<noteq> Some ''success'' then Some (Return False, 0)
          else (case find_first root ''job'' of
                  None \<Rightarrow> Some (Return True, 0)
                | Some job_id_elem \<Rightarrow> poll_job polls 0 0))"

text \<open>
  The exchange that ends a run of the loop: one that fails, one that is no XML, an answer
  without status element, and an answer whose status reads \<^verbatim>\<open>FIN\<close>; and what the loop
  leaves with there.
\<close>

definition stops :: "xml http \<Rightarrow> bool" where
  "stops x =
     (case x of
        Body status_root \<Rightarrow>
          (case find_first status_root ''status'' of
             None \<Rightarrow> True
           | Some job_status_elem \<Rightarrow> elem_text job_status_elem = Some ''FIN'')
      | _ \<Rightarrow> True)"

definition verdict :: "xml http \<Rightarrow> outcome" where
  "verdict x =
     (case x of
        RequestException \<Rightarrow> Return False
      | ParseError \<Rightarrow> Raise_ParseError
      | Body status_root \<Rightarrow>
          (case find_first status_root ''status'' of
             None \<Rightarrow> Return False
           | Some job_status_elem \<Rightarrow>
               (case find_first status_root ''result'' of
                  None \<Rightarrow> Return False
                | Some result_elem \<Rightarrow> Return (elem_text result_elem = Some ''OK''))))"

section \<open>Scenarios\<close>

text \<open>
  A pool with one subnet (id 1) and one device (id 1, \<^verbatim>\<open>web01\<close>), given by its CIDR, its
  gateway and the rows of \<^verbatim>\<open>ip_addresses\<close>; a row of that subnet; surroundings in which
  every service answers.
\<close>

definition pool_subnet :: "string \<Rightarrow> string option \<Rightarrow> subnet" where
  "pool_subnet cidr gw =
     \<lparr>sn_id = 1, sn_name = ''range-dmz'', network_cidr = cidr, zone = ''dmz'',
      vlan_id = Some 100, gateway = gw\<rparr>"

definition pool :: "string \<Rightarrow> string option \<Rightarrow> ip_row list \<Rightarrow> ipam" where
  "pool cidr gw rows =
     \<lparr>subnets = [pool_subnet cidr gw], devices = [\<lparr>dev_id = 1, hostname = ''web01''\<rparr>],
      ip_addresses = rows, next_ip_id = Suc (length rows), dns_records = [], route_posts = [],
      route_deletes = [], redis = Map.empty\<rparr>"

definition row :: "nat \<Rightarrow> string \<Rightarrow> string \<Rightarrow> ip_row" where
  "row i ip st =
     \<lparr>ip_id = i, ip_address = ip, subnet_id = 1, device_id = Some 1, status = st,
      allocated_at = Some 900, expires_at = Some 5000, ip_notes = Some ''web server''\<rparr>"

definition all_up :: env where
  "all_up = \<lparr>dns_up = True, route_up = True, redis_up = True, now = 1000\<rparr>"

definition scenario1 :: ipam where
  "scenario1 = pool ''10.100.1.0/24'' (Some ''10.100.1.1'') []"

definition exhausted :: ipam where
  "exhausted =
     pool ''10.100.1.0/30'' None [row 1 ''10.100.1.1'' ''allocated'', row 2 ''10.100.1.2'' ''reserved'']"

definition one_row :: ipam where
  "one_row = pool ''10.100.1.0/24'' None [row 1 ''10.100.1.5'' ''allocated'']"

text \<open>
  The route-injection service with the defaults of \<^verbatim>\<open>_get_default_config\<close>, surroundings in
  which every call succeeds, a router without routes and an empty cache; and surroundings
  of the IPAM service in which the route-injection service does not answer.
\<close>

definition default_config :: config where
  "default_config =
     \<lparr>cyber_range_networks = [''10.0.0.0/8'', ''172.20.0.0/16'', ''192.168.0.0/16''],
      auto_commit = True, naming_prefix = ''dns'', include_zone = True,
      include_timestamp = False, separator = ''_''\<rparr>"

definition all_ok :: calls where
  "all_ok =
     \<lparr>dns_add_ok = True, dns_add_error = [], create_ok = True, delete_ok = True,
      commit_ok = True, cache_up = True, cache_error = [], clock = 1000\<rparr>"

definition empty_router :: router where
  "empty_router = \<lparr>static_routes = Map.empty, commits = 0, dns = [], cache = Map.empty\<rparr>"

definition route_down :: env where
  "route_down = \<lparr>dns_up = True, route_up = False, redis_up = True, now = 1000\<rparr>"

text \<open>
  Answers of the shape the firewall gives: to an accepted commit request with job 42, and
  to a poll of that job with a given status and result. A job that stays active, and a job
  that is active for three polls and then finished with result OK.
\<close>

definition accepted :: "xml http" where
  "accepted =
     Body (Element ''response'' [(''status'', ''success''), (''code'', ''19'')] None
       [Element ''result'' [] None
          [Element ''msg'' [] None
             [Element ''line'' [] (Some ''Commit job enqueued with jobid 42'') []],
           Element ''job'' [] (Some ''42'') []]])"

definition job_report :: "string \<Rightarrow> string \<Rightarrow> xml http" where
  "job_report st res =
     Body (Element ''response'' [(''status'', ''success'')] None
       [Element ''result'' [] None
          [Element ''job'' [] None
             [Element ''id'' [] (Some ''42'') [],
              Element ''type'' [] (Some ''Commit'') [],
              Element ''status'' [] (Some st) [],
              Element ''result'' [] (Some res) [],
              Element ''progress'' [] (Some ''55'') []]]])"

definition active_job :: "nat \<Rightarrow> xml http" where
  "active_job n = job_report ''ACT'' ''PEND''"

definition finishing :: "nat \<Rightarrow> xml http" where
  "finishing n = (if n < 3 then active_job n else job_report ''FIN'' ''OK'')"

section \<open>Evaluation\<close>

lemmas ip_eval =
  parse_octet_def ip_int_from_string_def ipv4_str_def str_nat.simps digit_char_def digit_val_def
  is_digit_def int_of_str_def ip_network_def make_netmask_def prefix_from_prefix_string_def
  prefix_from_ip_string_def prefix_from_ip_int_def netmask_def hosts_def broadcast_address_def
  contains_def ALL_ONES_def

lemmas ipam_eval =
  allocate_ip_def allocate_ip_try_def check_preferred_def find_ip_def insert_ip_def
  after_insert_def create_dns_record_def trigger_route_injection_def cache_ip_allocation_def
  ipam_is_cyber_range_ip_def cidr_list_check_def ipam_cyber_range_networks_def taken_def
  route_fqdn_def replace_char_def release_ip_def release_ip_try_def released_def
  remove_route_injection_def Let_def

lemmas scenario_eval =
  pool_subnet_def pool_def row_def all_up_def scenario1_def exhausted_def one_row_def
  route_down_def

lemmas route_eval =
  inject_route_for_dns_record_def remove_route_for_dns_record_def handle_dns_record_created_def
  handle_dns_record_deleted_def enhanced_is_cyber_range_ip_def cidr_list_check_def
  webhook_is_cyber_range_ip_def startswith_def generate_route_name_def webhook_route_name_def
  make_route_info_def replace_char_def redis_get_def default_config_def all_ok_def
  empty_router_def Let_def

section \<open>Allocation\<close>

text \<open>
  C1, at a pool whose two hosts are taken: the body of \<^verbatim>\<open>allocate_ip\<close> raises status 507
  (no available address), the handler at the end of the function catches it and the
  caller receives status 500 with the text of the 507 as detail. Nothing is changed.
\<close>

theorem allocate_ip_exhausted_is_500:
  "allocate_ip e exhausted 1 None None None None =
     (Inl (HTTPException 500 (StrOf (HTTPException 507 (Msg ''No available IPs in subnet'')))),
      exhausted)"
  by (simp add: scenario_eval ipam_eval ip_eval)

text \<open>
  A released row stays in the table with status \<^verbatim>\<open>available\<close>. The scan then selects its
  address, the insert of a second row with that address breaks the unique constraint,
  and the call ends in status 500 although the address is free.
\<close>

lemma allocate_ip_over_released_row:
  "fst (allocate_ip e (pool ''10.100.1.0/24'' gw [row 1 ''10.100.1.1'' ''available'']) 1 None None
          None None) =
     Inl (HTTPException 500 (StrOf IntegrityError))"
  by (simp add: scenario_eval ipam_eval ip_eval)

text \<open>
  C2, at the pool 10.100.1.0/24 without rows: a preferred address is only tested for
  membership in the network, so the network address 10.100.1.0 and the broadcast
  address 10.100.1.255 are allocated on request; the address 10.100.2.5 outside the
  network is refused with status 500 (wrapping the 400 of the body).
\<close>

theorem allocate_ip_preferred_network_and_broadcast:
  "map_sum id ip_address
     (fst (allocate_ip e (pool ''10.100.1.0/24'' gw []) 1 None (Some ''10.100.1.0'') None None)) =
     Inr ''10.100.1.0'' \<and>
   map_sum id ip_address
     (fst (allocate_ip e (pool ''10.100.1.0/24'' gw []) 1 None (Some ''10.100.1.255'') None None)) =
     Inr ''10.100.1.255'' \<and>
   fst (allocate_ip e (pool ''10.100.1.0/24'' gw []) 1 None (Some ''10.100.2.5'') None None) =
     Inl (HTTPException 500 (StrOf (HTTPException 400 (Msg ''Preferred IP not in subnet''))))"
  by (simp add: scenario_eval ipam_eval ip_eval)

text \<open>
  C3 as stated fails: in scenario 1 (pool 10.100.1.0/24, gateway 10.100.1.1, no rows) the
  allocation without preference does not return 10.100.1.2.
\<close>

theorem scenario1_not_second_host:
  "map_sum id ip_address (fst (allocate_ip all_up scenario1 1 None None None None)) \<noteq>
     Inr ''10.100.1.2''"
  by (simp add: scenario_eval ipam_eval ip_eval)

text \<open>
  C3, amended: whatever the gateway of the pool 10.100.1.0/24 is, and whatever the
  surroundings, notes and expiry are, the allocation without preference and without
  prior rows returns 10.100.1.1, the first host of the network. The gateway column is
  not read.
\<close>

theorem scenario1_first_host:
  "map_sum id ip_address
     (fst (allocate_ip e (pool ''10.100.1.0/24'' gw []) 1 None None nts expires)) =
     Inr ''10.100.1.1''"
  by (simp add: scenario_eval ipam_eval ip_eval)

text \<open>
  C4, at scenario 1: the allocation of the preferred address 10.100.1.2 succeeds; the
  second request for it raises status 409 in the body, and the caller receives status
  500 with the text of the 409 as detail.
\<close>

theorem second_preferred_is_500:
  "map_sum id ip_address
     (fst (allocate_ip all_up scenario1 1 None (Some ''10.100.1.2'') None None)) =
     Inr ''10.100.1.2'' \<and>
   fst (allocate_ip all_up
          (snd (allocate_ip all_up scenario1 1 None (Some ''10.100.1.2'') None None))
          1 None (Some ''10.100.1.2'') None None) =
     Inl (HTTPException 500 (StrOf (HTTPException 409 (Msg ''Preferred IP already allocated''))))"
  by (simp add: scenario_eval ipam_eval ip_eval)

text \<open>Every exception that leaves \<^verbatim>\<open>allocate_ip\<close> or \<^verbatim>\<open>release_ip\<close> has status 500.\<close>

lemma allocate_ip_error_status:
  "fst (allocate_ip e w sid did preferred_ip nts expires) = Inl ex \<Longrightarrow> status_code ex = Some 500"
  by (auto simp: allocate_ip_def split: prod.splits sum.splits)

lemma release_ip_error_status:
  "fst (release_ip e w ip) = Inl ex \<Longrightarrow> status_code ex = Some 500"
  by (auto simp: release_ip_def split: prod.splits sum.splits)

section \<open>Release\<close>

lemma update_first_index:
  "List.find P xs = Some r \<Longrightarrow>
     \<exists>i. i < length xs \<and> xs ! i = r \<and> P r \<and> update_first P f xs = xs[i := f r]"
proof (induction xs)
  case Nil
  then show ?case by simp
next
  case (Cons x xs)
  show ?case
  proof (cases "P x")
    case True
    with Cons.prems have "x = r" by simp
    with True have "0 < length (x # xs) \<and> (x # xs) ! 0 = r \<and> P r \<and>
        update_first P f (x # xs) = (x # xs)[0 := f r]" by simp
    then show ?thesis by blast
  next
    case False
    with Cons.prems have "List.find P xs = Some r" by simp
    from Cons.IH [OF this] obtain i where
      i: "i < length xs" "xs ! i = r" "P r" "update_first P f xs = xs[i := f r]" by blast
    with False have "Suc i < length (x # xs) \<and> (x # xs) ! Suc i = r \<and> P r \<and>
        update_first P f (x # xs) = (x # xs)[Suc i := f r]" by simp
    then show ?thesis by blast
  qed
qed

lemma cache_ip_allocation_rows [simp]:
  "ip_addresses (cache_ip_allocation e r w) = ip_addresses w"
  by (simp add: cache_ip_allocation_def)

lemma remove_route_injection_rows [simp]:
  "ip_addresses (remove_route_injection e ip w) = ip_addresses w"
  by (simp add: remove_route_injection_def)

text \<open>
  C8 as stated fails: releasing the allocated address 10.100.1.5, whose row carries the
  note \<^verbatim>\<open>web server\<close>, leaves the note in the row.
\<close>

theorem release_keeps_notes:
  "map ip_notes
     (ip_addresses
        (snd (release_ip all_up one_row ''10.100.1.5''))) =
     [Some ''web server'']"
  by (simp add: scenario_eval ipam_eval ip_eval)

text \<open>
  C8, amended: when a row holds the address with status \<^verbatim>\<open>allocated\<close>, release succeeds
  and changes exactly one such row of the table: its status becomes \<^verbatim>\<open>available\<close>, its
  device and both timestamps are cleared, and its address, subnet, id and notes stay as
  they were. When no row holds the address as allocated, release fails (with status 500)
  and changes nothing.
\<close>

theorem release_ip_frame:
  "release_ip e w ip = (res, w') \<Longrightarrow>
     (if \<exists>r \<in> set (ip_addresses w). ip_address r = ip \<and> status r = ''allocated''
      then res = Inr (''IP address '' @ ip @ '' released successfully'') \<and>
           (\<exists>i r'. i < length (ip_addresses w) \<and>
              ip_address (ip_addresses w ! i) = ip \<and> status (ip_addresses w ! i) = ''allocated'' \<and>
              ip_addresses w' = (ip_addresses w)[i := r'] \<and>
              status r' = ''available'' \<and> device_id r' = None \<and>
              allocated_at r' = None \<and> expires_at r' = None \<and>
              ip_address r' = ip \<and> subnet_id r' = subnet_id (ip_addresses w ! i) \<and>
              ip_id r' = ip_id (ip_addresses w ! i) \<and> ip_notes r' = ip_notes (ip_addresses w ! i))
      else (\<exists>d. res = Inl (HTTPException 500 d)) \<and> w' = w)"
proof (cases "List.find (\<lambda>r. ip_address r = ip \<and> status r = ''allocated'') (ip_addresses w)")
  case None
  assume a: "release_ip e w ip = (res, w')"
  from None have neg:
    "\<not> (\<exists>r \<in> set (ip_addresses w). ip_address r = ip \<and> status r = ''allocated'')"
    by (auto simp: find_None_iff)
  from None a have "(\<exists>d. res = Inl (HTTPException 500 d)) \<and> w' = w"
    by (auto simp: release_ip_def release_ip_try_def)
  then show ?thesis by (subst if_not_P [OF neg])
next
  case (Some r)
  assume a: "release_ip e w ip = (res, w')"
  from update_first_index [OF Some, of released] obtain i where
    i: "i < length (ip_addresses w)" "ip_addresses w ! i = r"
       "ip_address r = ip \<and> status r = ''allocated''"
       "update_first (\<lambda>r. ip_address r = ip \<and> status r = ''allocated'') released (ip_addresses w)
          = (ip_addresses w)[i := released r]" by blast
  from i have ex: "\<exists>r \<in> set (ip_addresses w). ip_address r = ip \<and> status r = ''allocated''"
    using nth_mem by blast
  from Some a have res: "res = Inr (''IP address '' @ ip @ '' released successfully'')"
    by (auto simp: release_ip_def release_ip_try_def Let_def)
  from Some a i have rows: "ip_addresses w' = (ip_addresses w)[i := released r]"
    by (auto simp: release_ip_def release_ip_try_def Let_def)
  have "status (released r) = ''available'' \<and> device_id (released r) = None \<and>
      allocated_at (released r) = None \<and> expires_at (released r) = None \<and>
      ip_address (released r) = ip_address r \<and> subnet_id (released r) = subnet_id r \<and>
      ip_id (released r) = ip_id r \<and> ip_notes (released r) = ip_notes r"
    by (simp add: released_def)
  with i rows have "\<exists>i r'. i < length (ip_addresses w) \<and>
              ip_address (ip_addresses w ! i) = ip \<and> status (ip_addresses w ! i) = ''allocated'' \<and>
              ip_addresses w' = (ip_addresses w)[i := r'] \<and>
              status r' = ''available'' \<and> device_id r' = None \<and>
              allocated_at r' = None \<and> expires_at r' = None \<and>
              ip_address r' = ip \<and> subnet_id r' = subnet_id (ip_addresses w ! i) \<and>
              ip_id r' = ip_id (ip_addresses w ! i) \<and> ip_notes r' = ip_notes (ip_addresses w ! i)"
    by blast
  with res show ?thesis by (subst if_P [OF ex]) blast
qed

text \<open>
  The theorem at a table with the single row of 10.100.1.5, allocated: releasing
  10.100.1.5 succeeds and rewrites that row, releasing 10.100.1.6 fails and changes
  nothing.
\<close>

theorem release_ip_frame_witness:
  "fst (release_ip all_up one_row ''10.100.1.5'') =
     Inr ''IP address 10.100.1.5 released successfully'' \<and>
   (\<exists>i r'. i < length (ip_addresses one_row) \<and>
      ip_addresses (snd (release_ip all_up one_row ''10.100.1.5'')) = (ip_addresses one_row)[i := r'] \<and>
      status r' = ''available'' \<and> device_id r' = None \<and> allocated_at r' = None \<and>
      expires_at r' = None \<and> ip_address r' = ''10.100.1.5'' \<and>
      ip_notes r' = Some ''web server'') \<and>
   (\<exists>d. fst (release_ip all_up one_row ''10.100.1.6'') = Inl (HTTPException 500 d)) \<and>
   snd (release_ip all_up one_row ''10.100.1.6'') = one_row"
proof -
  have h5: "release_ip all_up one_row ''10.100.1.5'' =
      (fst (release_ip all_up one_row ''10.100.1.5''), snd (release_ip all_up one_row ''10.100.1.5''))"
    by simp
  have h6: "release_ip all_up one_row ''10.100.1.6'' =
      (fst (release_ip all_up one_row ''10.100.1.6''), snd (release_ip all_up one_row ''10.100.1.6''))"
    by simp
  have c5: "\<exists>r \<in> set (ip_addresses one_row). ip_address r = ''10.100.1.5'' \<and> status r = ''allocated''"
    by (simp add: scenario_eval)
  have c6: "\<not> (\<exists>r \<in> set (ip_addresses one_row). ip_address r = ''10.100.1.6'' \<and> status r = ''allocated'')"
    by (simp add: scenario_eval)
  have n5: "ip_notes (ip_addresses one_row ! i) = Some ''web server''" if "i < length (ip_addresses one_row)" for i
    using that by (simp add: scenario_eval)
  from release_ip_frame [OF h5] c5 have f5:
    "fst (release_ip all_up one_row ''10.100.1.5'') = Inr (''IP address '' @ ''10.100.1.5'' @ '' released successfully'') \<and>
           (\<exists>i r'. i < length (ip_addresses one_row) \<and>
              ip_address (ip_addresses one_row ! i) = ''10.100.1.5'' \<and> status (ip_addresses one_row ! i) = ''allocated'' \<and>
              ip_addresses (snd (release_ip all_up one_row ''10.100.1.5'')) = (ip_addresses one_row)[i := r'] \<and>
              status r' = ''available'' \<and> device_id r' = None \<and>
              allocated_at r' = None \<and> expires_at r' = None \<and>
              ip_address r' = ''10.100.1.5'' \<and> subnet_id r' = subnet_id (ip_addresses one_row ! i) \<and>
              ip_id r' = ip_id (ip_addresses one_row ! i) \<and> ip_notes r' = ip_notes (ip_addresses one_row ! i))"
    by (simp only: if_True)
  then obtain i r' where ir:
    "i < length (ip_addresses one_row)"
    "ip_addresses (snd (release_ip all_up one_row ''10.100.1.5'')) = (ip_addresses one_row)[i := r']"
    "status r' = ''available''" "device_id r' = None" "allocated_at r' = None"
    "expires_at r' = None" "ip_address r' = ''10.100.1.5''"
    "ip_notes r' = ip_notes (ip_addresses one_row ! i)"
    by blast
  from ir(1) ir(8) have "ip_notes r' = Some ''web server''" by (simp add: n5)
  with ir have e5: "\<exists>i r'. i < length (ip_addresses one_row) \<and>
      ip_addresses (snd (release_ip all_up one_row ''10.100.1.5'')) = (ip_addresses one_row)[i := r'] \<and>
      status r' = ''available'' \<and> device_id r' = None \<and> allocated_at r' = None \<and>
      expires_at r' = None \<and> ip_address r' = ''10.100.1.5'' \<and>
      ip_notes r' = Some ''web server''"
    by blast
  from f5 have "fst (release_ip all_up one_row ''10.100.1.5'') =
     Inr ''IP address 10.100.1.5 released successfully''" by simp
  with e5 have a: "fst (release_ip all_up one_row ''10.100.1.5'') = Inr ''IP address 10.100.1.5 released successfully'' \<and>
   (\<exists>i r'. i < length (ip_addresses one_row) \<and>
      ip_addresses (snd (release_ip all_up one_row ''10.100.1.5'')) = (ip_addresses one_row)[i := r'] \<and>
      status r' = ''available'' \<and> device_id r' = None \<and> allocated_at r' = None \<and>
      expires_at r' = None \<and> ip_address r' = ''10.100.1.5'' \<and>
      ip_notes r' = Some ''web server'')"
    by blast
  from release_ip_frame [OF h6] c6 have
    b: "(\<exists>d. fst (release_ip all_up one_row ''10.100.1.6'') = Inl (HTTPException 500 d)) \<and>
   snd (release_ip all_up one_row ''10.100.1.6'') = one_row"
    by (simp only: if_False)
  from a b show ?thesis by blast
qed

section \<open>Side effects of an allocation\<close>

lemma after_insert_rows [simp]: "ip_addresses (after_insert e sn r w) = ip_addresses w"
  by (simp add: after_insert_def Let_def create_dns_record_def trigger_route_injection_def
      split: option.splits)

lemma after_insert_route_down:
  "\<not> route_up e \<Longrightarrow> route_posts (after_insert e sn r w) = route_posts w"
  by (simp add: after_insert_def Let_def create_dns_record_def trigger_route_injection_def
      cache_ip_allocation_def split: option.splits)

lemma after_insert_dns:
  "dns_records (after_insert e sn r w) = dns_records w \<or>
   (\<exists>fqdn. dns_records (after_insert e sn r w) = dns_records w @ [(zone sn, fqdn, ip_address r)])"
  by (simp add: after_insert_def Let_def create_dns_record_def trigger_route_injection_def
      cache_ip_allocation_def split: option.splits)

lemma insert_ip_Inr:
  "insert_ip w r = Inr w1 \<Longrightarrow>
     ip_addresses w1 = ip_addresses w @ [r] \<and> dns_records w1 = dns_records w \<and>
     route_posts w1 = route_posts w"
  by (auto simp: insert_ip_def split: if_splits)

lemma allocate_ip_try_Inl: "allocate_ip_try e w sid did p nts ex = (Inl x, w') \<Longrightarrow> w' = w"
  by (auto simp: allocate_ip_try_def Let_def split: option.splits sum.splits)

lemma allocate_ip_try_Inr:
  "allocate_ip_try e w sid did p nts ex = (Inr r, w') \<Longrightarrow>
     \<exists>sn w1. insert_ip w r = Inr w1 \<and> w' = after_insert e sn r w1 \<and> status r = ''allocated''"
  by (auto simp: allocate_ip_try_def Let_def split: option.splits sum.splits)

lemma allocate_ip_Inl: "allocate_ip e w sid did p nts ex = (Inl x, w') \<Longrightarrow> w' = w"
  by (auto simp: allocate_ip_def split: prod.splits sum.splits dest: allocate_ip_try_Inl)

lemma allocate_ip_Inr:
  "allocate_ip e w sid did p nts ex = (Inr r, w') \<Longrightarrow>
     \<exists>sn w1. insert_ip w r = Inr w1 \<and> w' = after_insert e sn r w1 \<and> status r = ''allocated''"
  by (auto simp: allocate_ip_def split: prod.splits sum.splits dest: allocate_ip_try_Inr)

lemma find_dev_mem:
  "List.find (\<lambda>d. dev_id d = did) ds = Some dev \<Longrightarrow> did \<in> set (map dev_id ds)"
  by (auto simp: find_Some_iff)

text \<open>
  The allocation goes through, the DNS record of the device is published, and the route
  injection for the managed address fails: stated on the state and the surroundings
  before the call.
\<close>

lemma allocation_survives:
  assumes sn: "List.find (\<lambda>s. sn_id s = sid) (subnets w) = Some sn"
    and net: "ip_network (network_cidr sn) True = Some network"
    and chk: "check_preferred network p = None"
    and ip: "find_ip w network sid p = Inr addr"
    and fresh: "addr \<notin> set (map ip_address (ip_addresses w))"
    and did: "did \<noteq> 0"
    and dev: "List.find (\<lambda>d. dev_id d = did) (devices w) = Some dev"
    and dns: "dns_up e"
    and managed: "ipam_is_cyber_range_ip addr"
    and down: "\<not> route_up e"
  shows "\<exists>r w'. allocate_ip e w sid (Some did) p nts ex = (Inr r, w') \<and>
           ip_address r = addr \<and> status r = ''allocated'' \<and> r \<in> set (ip_addresses w') \<and>
           dns_records w' = dns_records w @ [(zone sn, hostname dev @ ''.'' @ zone sn, addr)] \<and>
           route_posts w' = route_posts w"
proof -
  define r where "r = \<lparr>ip_id = next_ip_id w, ip_address = addr, subnet_id = sid,
      device_id = Some did, status = ''allocated'', allocated_at = Some (now e),
      expires_at = ex, ip_notes = nts\<rparr>"
  define w1 where
    "w1 = w\<lparr>ip_addresses := ip_addresses w @ [r], next_ip_id := Suc (next_ip_id w)\<rparr>"
  from fresh find_dev_mem [OF dev] have ins: "insert_ip w r = Inr w1"
    by (simp add: insert_ip_def r_def w1_def)
  from sn net chk ip ins have
    res: "allocate_ip e w sid (Some did) p nts ex = (Inr r, after_insert e sn r w1)"
    by (simp add: allocate_ip_def allocate_ip_try_def Let_def r_def)
  from dev did dns have d: "dns_records (after_insert e sn r w1) =
      dns_records w @ [(zone sn, hostname dev @ ''.'' @ zone sn, addr)]"
    by (simp add: after_insert_def Let_def create_dns_record_def trigger_route_injection_def
        cache_ip_allocation_def r_def w1_def)
  from down have p: "route_posts (after_insert e sn r w1) = route_posts w"
    by (simp add: after_insert_route_down w1_def)
  have m: "r \<in> set (ip_addresses (after_insert e sn r w1))" by (simp add: w1_def)
  have "ip_address r = addr \<and> status r = ''allocated''" by (simp add: r_def)
  with res d p m show ?thesis by blast
qed

text \<open>
  For every call: whether the route-injection service answers changes neither the result
  nor the state, but for the request that is missing from the posts.
\<close>

lemma route_failure_changes_only_posts:
  "fst (allocate_ip (e\<lparr>route_up := False\<rparr>) w sid did p nts ex) =
     fst (allocate_ip e w sid did p nts ex) \<and>
   snd (allocate_ip (e\<lparr>route_up := False\<rparr>) w sid did p nts ex) =
     (snd (allocate_ip e w sid did p nts ex))\<lparr>route_posts := route_posts w\<rparr>"
  by (auto simp: allocate_ip_def allocate_ip_try_def Let_def insert_ip_def after_insert_def
      create_dns_record_def trigger_route_injection_def cache_ip_allocation_def
      split: option.splits sum.splits)

text \<open>
  C5 as stated fails: in scenario 1, for device 1 and with the route-injection service not
  answering, the DNS record is published, the injection for the managed address
  10.100.1.1 fails, and still the call returns the allocation, the address stays
  allocated and the DNS record stays.
\<close>

theorem allocation_survives_failed_injection:
  "map_sum id (\<lambda>r. (ip_address r, status r))
     (fst (allocate_ip route_down scenario1 1 (Some 1) None None None)) =
     Inr (''10.100.1.1'', ''allocated'') \<and>
   ipam_is_cyber_range_ip ''10.100.1.1'' \<and>
   map (\<lambda>r. (ip_address r, status r))
     (ip_addresses (snd (allocate_ip route_down scenario1 1 (Some 1) None None None))) =
     [(''10.100.1.1'', ''allocated'')] \<and>
   dns_records (snd (allocate_ip route_down scenario1 1 (Some 1) None None None)) =
     [(''dmz'', ''web01.dmz'', ''10.100.1.1'')] \<and>
   route_posts (snd (allocate_ip route_down scenario1 1 (Some 1) None None None)) = []"
  by (simp add: scenario_eval ipam_eval ip_eval)

text \<open>
  C5, amended: nothing is compensated. When the allocation goes through, the DNS record of
  the device is published (the DNS API answers) and the route-injection service does not
  answer for the managed address, \<^verbatim>\<open>allocate_ip\<close> returns the allocation as a success, the
  address is held by an allocated row and the DNS record is in place (the failure is only
  logged). In \<^verbatim>\<open>inject_route_for_dns_record\<close>, when the DNS record was added and the
  creation of the route fails, the answer has \<^verbatim>\<open>success\<close> false and the message
  \<^verbatim>\<open>Route injection failed\<close>, the DNS record stays, and neither an association nor a route
  is written.
\<close>

theorem no_compensation:
  "(List.find (\<lambda>s. sn_id s = sid) (subnets w) = Some sn \<and>
    ip_network (network_cidr sn) True = Some network \<and>
    check_preferred network p = None \<and>
    find_ip w network sid p = Inr addr \<and>
    addr \<notin> set (map ip_address (ip_addresses w)) \<and>
    did \<noteq> 0 \<and> List.find (\<lambda>d. dev_id d = did) (devices w) = Some dev \<and>
    dns_up e \<and> ipam_is_cyber_range_ip addr \<and> \<not> route_up e \<longrightarrow>
      (\<exists>r w'. allocate_ip e w sid (Some did) p nts ex = (Inr r, w') \<and>
         ip_address r = addr \<and> status r = ''allocated'' \<and> r \<in> set (ip_addresses w') \<and>
         dns_records w' = dns_records w @ [(zone sn, hostname dev @ ''.'' @ zone sn, addr)] \<and>
         route_posts w' = route_posts w)) \<and>
   (enhanced_is_cyber_range_ip cfg ip \<and> dns_add_ok c \<and> \<not> create_ok c \<longrightarrow>
      fst (inject_route_for_dns_record cfg c rw z fqdn ip ttl) =
        [(''success'', B False), (''message'', S ''Route injection failed''),
         (''route_injected'', B False), (''dns_result'', B True)] \<and>
      dns (snd (inject_route_for_dns_record cfg c rw z fqdn ip ttl)) = dns rw @ [(z, fqdn, ip, ttl)] \<and>
      cache (snd (inject_route_for_dns_record cfg c rw z fqdn ip ttl)) = cache rw \<and>
      static_routes (snd (inject_route_for_dns_record cfg c rw z fqdn ip ttl)) = static_routes rw)"
proof -
  have "List.find (\<lambda>s. sn_id s = sid) (subnets w) = Some sn \<and>
    ip_network (network_cidr sn) True = Some network \<and>
    check_preferred network p = None \<and>
    find_ip w network sid p = Inr addr \<and>
    addr \<notin> set (map ip_address (ip_addresses w)) \<and>
    did \<noteq> 0 \<and> List.find (\<lambda>d. dev_id d = did) (devices w) = Some dev \<and>
    dns_up e \<and> ipam_is_cyber_range_ip addr \<and> \<not> route_up e \<longrightarrow>
      (\<exists>r w'. allocate_ip e w sid (Some did) p nts ex = (Inr r, w') \<and>
         ip_address r = addr \<and> status r = ''allocated'' \<and> r \<in> set (ip_addresses w') \<and>
         dns_records w' = dns_records w @ [(zone sn, hostname dev @ ''.'' @ zone sn, addr)] \<and>
         route_posts w' = route_posts w)"
    using allocation_survives [of sid w sn network p addr did dev e nts ex] by blast
  moreover have "enhanced_is_cyber_range_ip cfg ip \<and> dns_add_ok c \<and> \<not> create_ok c \<longrightarrow>
      fst (inject_route_for_dns_record cfg c rw z fqdn ip ttl) =
        [(''success'', B False), (''message'', S ''Route injection failed''),
         (''route_injected'', B False), (''dns_result'', B True)] \<and>
      dns (snd (inject_route_for_dns_record cfg c rw z fqdn ip ttl)) = dns rw @ [(z, fqdn, ip, ttl)] \<and>
      cache (snd (inject_route_for_dns_record cfg c rw z fqdn ip ttl)) = cache rw \<and>
      static_routes (snd (inject_route_for_dns_record cfg c rw z fqdn ip ttl)) = static_routes rw"
    by (simp add: inject_route_for_dns_record_def Let_def)
  ultimately show ?thesis by blast
qed

text \<open>
  The theorem at scenario 1 with the route-injection service down, and at the default
  service with a router that refuses the route.
\<close>

theorem no_compensation_witness:
  "(\<exists>r w'. allocate_ip route_down scenario1 1 (Some 1) None None None = (Inr r, w') \<and>
      ip_address r = ''10.100.1.1'' \<and> status r = ''allocated'' \<and> r \<in> set (ip_addresses w') \<and>
      dns_records w' = dns_records scenario1 @ [(''dmz'', ''web01.dmz'', ''10.100.1.1'')] \<and>
      route_posts w' = route_posts scenario1) \<and>
   fst (inject_route_for_dns_record default_config (all_ok\<lparr>create_ok := False\<rparr>) empty_router
          ''lab.local'' ''web01.lab.local'' ''10.100.1.2'' 60) =
     [(''success'', B False), (''message'', S ''Route injection failed''),
      (''route_injected'', B False), (''dns_result'', B True)] \<and>
   dns (snd (inject_route_for_dns_record default_config (all_ok\<lparr>create_ok := False\<rparr>) empty_router
          ''lab.local'' ''web01.lab.local'' ''10.100.1.2'' 60)) =
     dns empty_router @ [(''lab.local'', ''web01.lab.local'', ''10.100.1.2'', 60)]"
proof -
  let ?sn = "pool_subnet ''10.100.1.0/24'' (Some ''10.100.1.1'')"
  let ?net = "\<lparr>network_address = 174326016, prefixlen = 24\<rparr>"
  let ?dev = "\<lparr>dev_id = 1, hostname = ''web01''\<rparr>"
  have g1: "List.find (\<lambda>s. sn_id s = 1) (subnets scenario1) = Some ?sn"
    by (simp add: scenario_eval)
  have g2: "ip_network (network_cidr ?sn) True = Some ?net"
    by (simp add: scenario_eval ip_eval)
  have g3: "check_preferred ?net None = None" by (simp add: check_preferred_def)
  have g4: "find_ip scenario1 ?net 1 None = Inr ''10.100.1.1''"
    by (simp add: scenario_eval find_ip_def ip_eval)
  have g5: "''10.100.1.1'' \<notin> set (map ip_address (ip_addresses scenario1))"
    by (simp add: scenario_eval)
  have g6: "(1::nat) \<noteq> 0" by simp
  have g7: "List.find (\<lambda>d. dev_id d = 1) (devices scenario1) = Some ?dev"
    by (simp add: scenario_eval)
  have g8: "dns_up route_down" "\<not> route_up route_down" by (simp_all add: route_down_def)
  have g9: "ipam_is_cyber_range_ip ''10.100.1.1''"
    by (simp add: ipam_is_cyber_range_ip_def cidr_list_check_def ipam_cyber_range_networks_def
        ip_eval)
  have h4: "enhanced_is_cyber_range_ip default_config ''10.100.1.2''"
    by (simp add: enhanced_is_cyber_range_ip_def cidr_list_check_def default_config_def ip_eval)
  have h5: "dns_add_ok (all_ok\<lparr>create_ok := False\<rparr>)" "\<not> create_ok (all_ok\<lparr>create_ok := False\<rparr>)"
    by (simp_all add: all_ok_def)
  have z: "zone ?sn = ''dmz''" "hostname ?dev = ''web01''" by (simp_all add: scenario_eval)
  from g1 g2 g3 g4 g5 g6 g7 g8 g9
    no_compensation [where sid = 1 and w = scenario1 and sn = ?sn and network = ?net
      and p = None and addr = "''10.100.1.1''" and did = 1 and dev = ?dev and e = route_down
      and nts = None and ex = None]
  have a: "\<exists>r w'. allocate_ip route_down scenario1 1 (Some 1) None None None = (Inr r, w') \<and>
      ip_address r = ''10.100.1.1'' \<and> status r = ''allocated'' \<and> r \<in> set (ip_addresses w') \<and>
      dns_records w' = dns_records scenario1 @ [(zone ?sn, hostname ?dev @ ''.'' @ zone ?sn, ''10.100.1.1'')] \<and>
      route_posts w' = route_posts scenario1"
    by blast
  from h4 h5
    no_compensation [where cfg = default_config and ip = "''10.100.1.2''"
      and c = "all_ok\<lparr>create_ok := False\<rparr>" and rw = empty_router
      and z = "''lab.local''" and fqdn = "''web01.lab.local''" and ttl = 60]
  have b: "fst (inject_route_for_dns_record default_config (all_ok\<lparr>create_ok := False\<rparr>) empty_router
          ''lab.local'' ''web01.lab.local'' ''10.100.1.2'' 60) =
     [(''success'', B False), (''message'', S ''Route injection failed''),
      (''route_injected'', B False), (''dns_result'', B True)] \<and>
   dns (snd (inject_route_for_dns_record default_config (all_ok\<lparr>create_ok := False\<rparr>) empty_router
          ''lab.local'' ''web01.lab.local'' ''10.100.1.2'' 60)) =
     dns empty_router @ [(''lab.local'', ''web01.lab.local'', ''10.100.1.2'', 60)]"
    by blast
  from a z have a': "\<exists>r w'. allocate_ip route_down scenario1 1 (Some 1) None None None = (Inr r, w') \<and>
      ip_address r = ''10.100.1.1'' \<and> status r = ''allocated'' \<and> r \<in> set (ip_addresses w') \<and>
      dns_records w' = dns_records scenario1 @ [(''dmz'', ''web01.dmz'', ''10.100.1.1'')] \<and>
      route_posts w' = route_posts scenario1"
    by simp
  from a' b show ?thesis by blast
qed

section \<open>Associations and commits\<close>

text \<open>
  C6 as stated fails: with \<^verbatim>\<open>auto_commit\<close> switched off the enhanced service creates the
  route, performs no commit, caches the association and reports success.
\<close>

theorem association_without_commit:
  "map_of (fst (inject_route_for_dns_record (default_config\<lparr>auto_commit := False\<rparr>) all_ok
                  empty_router ''lab.local'' ''web01.lab.local'' ''10.100.1.2'' 60)) ''success'' =
     Some (B True) \<and>
   map_option ri_status
     (cache (snd (inject_route_for_dns_record (default_config\<lparr>auto_commit := False\<rparr>) all_ok
                  empty_router ''lab.local'' ''web01.lab.local'' ''10.100.1.2'' 60))
        ''route:dns_lab_local_web01_lab_local_10_100_1_2'') = Some ''active'' \<and>
   commits (snd (inject_route_for_dns_record (default_config\<lparr>auto_commit := False\<rparr>) all_ok
                  empty_router ''lab.local'' ''web01.lab.local'' ''10.100.1.2'' 60)) = 0"
  by (simp add: route_eval ip_eval)

text \<open>With \<^verbatim>\<open>auto_commit\<close> on and a failing commit the same service only logs a warning.\<close>

lemma association_despite_failed_commit:
  "map_of (fst (inject_route_for_dns_record default_config (all_ok\<lparr>commit_ok := False\<rparr>)
                  empty_router ''lab.local'' ''web01.lab.local'' ''10.100.1.2'' 60)) ''success'' =
     Some (B True) \<and>
   map_option ri_status
     (cache (snd (inject_route_for_dns_record default_config (all_ok\<lparr>commit_ok := False\<rparr>)
                  empty_router ''lab.local'' ''web01.lab.local'' ''10.100.1.2'' 60))
        ''route:dns_lab_local_web01_lab_local_10_100_1_2'') = Some ''active''"
  by (simp add: route_eval ip_eval)

text \<open>
  C6, amended: the webhook handler \<^verbatim>\<open>handle_dns_record_created\<close> writes no association
  unless the route was created and \<^verbatim>\<open>commit_configuration\<close> returned true, and answers a
  created route whose commit failed with \<^verbatim>\<open>success\<close> false. The enhanced service
  \<^verbatim>\<open>inject_route_for_dns_record\<close> writes no association unless the route was created; with
  \<^verbatim>\<open>auto_commit\<close> off it performs no commit, writes the association and reports success.
\<close>

theorem association_needs_route_and_commit:
  "(\<not> (create_ok c \<and> commit_ok c) \<longrightarrow>
      cache (snd (handle_dns_record_created c w z fqdn ip)) = cache w) \<and>
   (webhook_is_cyber_range_ip ip \<and> create_ok c \<and> \<not> commit_ok c \<longrightarrow>
      fst (handle_dns_record_created c w z fqdn ip) =
        [(''success'', B False), (''message'', S ''Route created but commit failed''),
         (''route_injected'', B False)]) \<and>
   (\<not> create_ok c \<longrightarrow>
      cache (snd (inject_route_for_dns_record cfg c w z fqdn ip ttl)) = cache w) \<and>
   (enhanced_is_cyber_range_ip cfg ip \<and> dns_add_ok c \<and> create_ok c \<and> cache_up c \<and>
    \<not> auto_commit cfg \<longrightarrow>
      map_of (fst (inject_route_for_dns_record cfg c w z fqdn ip ttl)) ''success'' = Some (B True) \<and>
      cache (snd (inject_route_for_dns_record cfg c w z fqdn ip ttl))
        (''route:'' @ generate_route_name cfg c fqdn ip (Some z)) =
        Some (make_route_info c (generate_route_name cfg c fqdn ip (Some z)) fqdn ip z) \<and>
      commits (snd (inject_route_for_dns_record cfg c w z fqdn ip ttl)) = commits w)"
  by (simp add: handle_dns_record_created_def inject_route_for_dns_record_def Let_def)

text \<open>
  The theorem at an empty router: a failing commit in the webhook handler, a refused route
  in the enhanced service, and the enhanced service with \<^verbatim>\<open>auto_commit\<close> off.
\<close>

theorem association_needs_route_and_commit_witness:
  "cache (snd (handle_dns_record_created (all_ok\<lparr>commit_ok := False\<rparr>) empty_router
                 ''lab.local'' ''web01.lab.local'' ''10.100.1.2'')) = cache empty_router \<and>
   fst (handle_dns_record_created (all_ok\<lparr>commit_ok := False\<rparr>) empty_router
          ''lab.local'' ''web01.lab.local'' ''10.100.1.2'') =
     [(''success'', B False), (''message'', S ''Route created but commit failed''),
      (''route_injected'', B False)] \<and>
   cache (snd (inject_route_for_dns_record default_config (all_ok\<lparr>create_ok := False\<rparr>)
                 empty_router ''lab.local'' ''web01.lab.local'' ''10.100.1.2'' 60)) =
     cache empty_router \<and>
   map_of (fst (inject_route_for_dns_record (default_config\<lparr>auto_commit := False\<rparr>) all_ok
                  empty_router ''lab.local'' ''web01.lab.local'' ''10.100.1.2'' 60)) ''success'' =
     Some (B True) \<and>
   commits (snd (inject_route_for_dns_record (default_config\<lparr>auto_commit := False\<rparr>) all_ok
                   empty_router ''lab.local'' ''web01.lab.local'' ''10.100.1.2'' 60)) =
     commits empty_router"
proof -
  have a: "\<not> (create_ok (all_ok\<lparr>commit_ok := False\<rparr>) \<and> commit_ok (all_ok\<lparr>commit_ok := False\<rparr>))"
    "create_ok (all_ok\<lparr>commit_ok := False\<rparr>)" "\<not> commit_ok (all_ok\<lparr>commit_ok := False\<rparr>)"
    by (simp_all add: all_ok_def)
  have b: "webhook_is_cyber_range_ip ''10.100.1.2''"
    by (simp add: webhook_is_cyber_range_ip_def startswith_def)
  have c: "\<not> create_ok (all_ok\<lparr>create_ok := False\<rparr>)" by simp
  have d: "enhanced_is_cyber_range_ip (default_config\<lparr>auto_commit := False\<rparr>) ''10.100.1.2''"
    "dns_add_ok all_ok" "create_ok all_ok" "cache_up all_ok"
    "\<not> auto_commit (default_config\<lparr>auto_commit := False\<rparr>)"
    by (simp_all add: enhanced_is_cyber_range_ip_def cidr_list_check_def default_config_def
        all_ok_def ip_eval)
  from a b
    association_needs_route_and_commit [of "all_ok\<lparr>commit_ok := False\<rparr>" empty_router
      "''lab.local''" "''web01.lab.local''" "''10.100.1.2''"]
  have p1: "cache (snd (handle_dns_record_created (all_ok\<lparr>commit_ok := False\<rparr>) empty_router
                 ''lab.local'' ''web01.lab.local'' ''10.100.1.2'')) = cache empty_router \<and>
   fst (handle_dns_record_created (all_ok\<lparr>commit_ok := False\<rparr>) empty_router
          ''lab.local'' ''web01.lab.local'' ''10.100.1.2'') =
     [(''success'', B False), (''message'', S ''Route created but commit failed''),
      (''route_injected'', B False)]"
    by blast
  from c
    association_needs_route_and_commit [of "all_ok\<lparr>create_ok := False\<rparr>" empty_router
      "''lab.local''" "''web01.lab.local''" "''10.100.1.2''" default_config 60]
  have p2: "cache (snd (inject_route_for_dns_record default_config (all_ok\<lparr>create_ok := False\<rparr>)
                 empty_router ''lab.local'' ''web01.lab.local'' ''10.100.1.2'' 60)) =
     cache empty_router"
    by blast
  from d
    association_needs_route_and_commit [of all_ok empty_router
      "''lab.local''" "''web01.lab.local''" "''10.100.1.2''" "default_config\<lparr>auto_commit := False\<rparr>" 60]
  have p3: "map_of (fst (inject_route_for_dns_record (default_config\<lparr>auto_commit := False\<rparr>) all_ok
                  empty_router ''lab.local'' ''web01.lab.local'' ''10.100.1.2'' 60)) ''success'' =
     Some (B True) \<and>
   commits (snd (inject_route_for_dns_record (default_config\<lparr>auto_commit := False\<rparr>) all_ok
                   empty_router ''lab.local'' ''web01.lab.local'' ''10.100.1.2'' 60)) =
     commits empty_router"
    by blast
  from p1 p2 p3 show ?thesis by blast
qed

section \<open>Release of the side effects\<close>

text \<open>
  C9: when the cache holds no association under the generated route name (the lookup
  answers with nothing), \<^verbatim>\<open>remove_route_for_dns_record\<close> and \<^verbatim>\<open>handle_dns_record_deleted\<close>
  answer with \<^verbatim>\<open>success\<close> true (\<^verbatim>\<open>Route not found in cache\<close>) and change nothing; so the
  same release made a second time succeeds again.
\<close>

theorem release_without_association:
  "(redis_get c w (''route:'' @ generate_route_name cfg c fqdn ip (Some z)) = Answer None \<longrightarrow>
      remove_route_for_dns_record cfg c w z fqdn ip =
        ([(''success'', B True), (''message'', S ''Route not found in cache''),
          (''route_removed'', B False)], w) \<and>
      map_of (fst (remove_route_for_dns_record cfg c
                     (snd (remove_route_for_dns_record cfg c w z fqdn ip)) z fqdn ip)) ''success'' =
        Some (B True)) \<and>
   (redis_get c w (''route:'' @ webhook_route_name fqdn ip) = Answer None \<longrightarrow>
      handle_dns_record_deleted c w z fqdn ip =
        ([(''success'', B True), (''message'', S ''Route not found in cache''),
          (''route_removed'', B False)], w) \<and>
      map_of (fst (handle_dns_record_deleted c
                     (snd (handle_dns_record_deleted c w z fqdn ip)) z fqdn ip)) ''success'' =
        Some (B True))"
  by (simp add: remove_route_for_dns_record_def handle_dns_record_deleted_def Let_def)

text \<open>The theorem at an empty cache.\<close>

theorem release_without_association_witness:
  "remove_route_for_dns_record default_config all_ok empty_router
       ''lab.local'' ''web01.lab.local'' ''10.100.1.2'' =
     ([(''success'', B True), (''message'', S ''Route not found in cache''),
       (''route_removed'', B False)], empty_router) \<and>
   map_of (fst (remove_route_for_dns_record default_config all_ok
                  (snd (remove_route_for_dns_record default_config all_ok empty_router
                          ''lab.local'' ''web01.lab.local'' ''10.100.1.2''))
                  ''lab.local'' ''web01.lab.local'' ''10.100.1.2'')) ''success'' = Some (B True) \<and>
   handle_dns_record_deleted all_ok empty_router ''lab.local'' ''web01.lab.local'' ''10.100.1.2'' =
     ([(''success'', B True), (''message'', S ''Route not found in cache''),
       (''route_removed'', B False)], empty_router) \<and>
   map_of (fst (handle_dns_record_deleted all_ok
                  (snd (handle_dns_record_deleted all_ok empty_router
                          ''lab.local'' ''web01.lab.local'' ''10.100.1.2''))
                  ''lab.local'' ''web01.lab.local'' ''10.100.1.2'')) ''success'' = Some (B True)"
proof -
  have e1: "redis_get all_ok empty_router (''route:'' @ generate_route_name default_config all_ok
      ''web01.lab.local'' ''10.100.1.2'' (Some ''lab.local'')) = Answer None"
    by (simp add: redis_get_def all_ok_def empty_router_def)
  have e2: "redis_get all_ok empty_router
      (''route:'' @ webhook_route_name ''web01.lab.local'' ''10.100.1.2'') = Answer None"
    by (simp add: redis_get_def all_ok_def empty_router_def)
  from e1 e2
    release_without_association [of all_ok empty_router default_config "''web01.lab.local''"
      "''10.100.1.2''" "''lab.local''"]
  show ?thesis by blast
qed

text \<open>
  After any successful release the association is gone, so a second release that reaches
  Redis and generates the same route name is the no-op success.
\<close>

lemma second_release_succeeds:
  "map_of (fst (remove_route_for_dns_record cfg c w z fqdn ip)) ''success'' = Some (B True) \<Longrightarrow>
   cache_up c' \<Longrightarrow>
   generate_route_name cfg c' fqdn ip (Some z) = generate_route_name cfg c fqdn ip (Some z) \<Longrightarrow>
   remove_route_for_dns_record cfg c' (snd (remove_route_for_dns_record cfg c w z fqdn ip)) z fqdn ip =
     ([(''success'', B True), (''message'', S ''Route not found in cache''),
       (''route_removed'', B False)], snd (remove_route_for_dns_record cfg c w z fqdn ip))"
  by (auto simp: remove_route_for_dns_record_def redis_get_def Let_def
      split: if_splits option.splits)

lemma second_webhook_release_succeeds:
  "map_of (fst (handle_dns_record_deleted c w z fqdn ip)) ''success'' = Some (B True) \<Longrightarrow>
   cache_up c' \<Longrightarrow>
   handle_dns_record_deleted c' (snd (handle_dns_record_deleted c w z fqdn ip)) z fqdn ip =
     ([(''success'', B True), (''message'', S ''Route not found in cache''),
       (''route_removed'', B False)], snd (handle_dns_record_deleted c w z fqdn ip))"
  by (auto simp: handle_dns_record_deleted_def redis_get_def Let_def
      split: if_splits option.splits)

section \<open>The polling loop\<close>

text \<open>One turn of the loop: it returns at an exchange that stops it, and polls again otherwise.\<close>

lemma poll_job_stop_now:
  "stops (polls n) \<Longrightarrow> poll_job polls n s = Some (verdict (polls n), s)"
  by (subst poll_job.simps) (auto simp: stops_def verdict_def split: http.splits option.splits)

lemma poll_job_step:
  "\<not> stops (polls n) \<Longrightarrow> poll_job polls n s = poll_job polls (Suc n) (s + 2)"
  by (subst poll_job.simps) (auto simp: stops_def split: http.splits option.splits)

lemma poll_job_returns:
  "stops (polls (n + k)) \<Longrightarrow> (\<forall>j<k. \<not> stops (polls (n + j))) \<Longrightarrow>
     poll_job polls n s = Some (verdict (polls (n + k)), s + 2 * k)"
proof (induction k arbitrary: n s)
  case 0
  then show ?case by (simp add: poll_job_stop_now)
next
  case (Suc k)
  from Suc.prems(2) have now: "\<not> stops (polls n)" by force
  have later: "\<forall>j<k. \<not> stops (polls (Suc n + j))"
  proof (intro allI impI)
    fix j assume "j < k"
    then have "Suc j < Suc k" by simp
    with Suc.prems(2) have "\<not> stops (polls (n + Suc j))" by blast
    then show "\<not> stops (polls (Suc n + j))" by simp
  qed
  from Suc.prems(1) have "stops (polls (Suc n + k))" by simp
  from Suc.IH [OF this later, of "s + 2"] now show ?case
    by (simp add: poll_job_step)
qed

lemma poll_job_Some_stops:
  "poll_job polls n s = Some y \<Longrightarrow> \<exists>k. stops (polls (n + k))"
proof (rule poll_job.raw_induct [where P = "\<lambda>polls n s y. \<exists>k. stops (polls (n + k))"])
  show "poll_job polls n s = Some y" if "poll_job polls n s = Some y"
    using that .
next
  fix f :: "(nat \<Rightarrow> xml http) \<Rightarrow> nat \<Rightarrow> nat \<Rightarrow> (outcome \<times> nat) option"
    and polls n slept y
  assume IH: "\<And>polls n slept y. f polls n slept = Some y \<Longrightarrow> \<exists>k. stops (polls (n + k))"
  assume eq: "(case polls n of
        RequestException \<Rightarrow> Some (Return False, slept)
      | ParseError \<Rightarrow> Some (Raise_ParseError, slept)
      | Body status_root \<Rightarrow>
          (case find_first status_root ''status'' of
             None \<Rightarrow> Some (Return False, slept)
           | Some job_status_elem \<Rightarrow>
               if elem_text job_status_elem = Some ''FIN'' then
                 (case find_first status_root ''result'' of
                    None \<Rightarrow> Some (Return False, slept)
                  | Some result_elem \<Rightarrow> Some (Return (elem_text result_elem = Some ''OK''), slept))
               else f polls (Suc n) (slept + 2))) = Some y"
  show "\<exists>k. stops (polls (n + k))"
  proof (cases "stops (polls n)")
    case True
    then have "stops (polls (n + 0))" by simp
    then show ?thesis by blast
  next
    case False
    with eq have "f polls (Suc n) (slept + 2) = Some y"
      by (auto simp: stops_def split: http.splits option.splits if_splits)
    then have "\<exists>k. stops (polls (Suc n + k))" by (rule IH)
    then obtain k where "stops (polls (Suc n + k))" by blast
    then have "stops (polls (n + Suc k))" by simp
    then show ?thesis by blast
  qed
qed

lemma poll_job_runs_forever:
  "(\<forall>k. \<not> stops (polls k)) \<Longrightarrow> poll_job polls n s = None"
proof (rule ccontr)
  assume never: "\<forall>k. \<not> stops (polls k)" and "poll_job polls n s \<noteq> None"
  then obtain y where "poll_job polls n s = Some y" by blast
  from poll_job_Some_stops [OF this] never show False by blast
qed

lemma active_job_never_stops: "\<not> stops (active_job k)"
  by (simp add: stops_def active_job_def job_report_def find_first_def)

lemma accepted_has_job:
  "\<exists>root j. accepted = Body root \<and> get_attrib root ''status'' = Some ''success'' \<and>
     find_first root ''job'' = Some j"
  by (simp add: accepted_def get_attrib_def find_first_def)

text \<open>
  C7 as stated fails: after an accepted commit request, on a job that every poll reports
  as active, \<^verbatim>\<open>commit_config\<close> does not return.
\<close>

theorem commit_config_never_returns: "commit_config accepted active_job = None"
  by (simp add: commit_config_def accepted_def get_attrib_def find_first_def
      poll_job_runs_forever active_job_never_stops)

text \<open>
  C7, amended: after an accepted commit request with a job, \<^verbatim>\<open>commit_config\<close> polls the job
  with two seconds of sleep between polls and stops at the first poll that shows a
  terminal state (a status that reads \<^verbatim>\<open>FIN\<close>) or that cannot be read (no status element, a
  failing request, a body that is no XML); when that is the poll number \<open>k\<close>, it leaves
  after \<open>2 * k\<close> seconds of sleep. It takes no timeout: when no poll stops the loop, the
  function does not return.
\<close>

theorem commit_config_returns_iff_poll_stops:
  "(get_attrib root ''status'' = Some ''success'' \<and> find_first root ''job'' = Some j \<and>
    stops (polls k) \<and> (\<forall>i<k. \<not> stops (polls i)) \<longrightarrow>
      (\<exists>r. commit_config (Body root) polls = Some (r, 2 * k))) \<and>
   (get_attrib root ''status'' = Some ''success'' \<and> find_first root ''job'' = Some j \<and>
    (\<forall>k. \<not> stops (polls k)) \<longrightarrow>
      commit_config (Body root) polls = None)"
proof -
  have "\<exists>r. commit_config (Body root) polls = Some (r, 2 * k)"
    if "get_attrib root ''status'' = Some ''success''" "find_first root ''job'' = Some j"
      "stops (polls k)" "\<forall>i<k. \<not> stops (polls i)"
    using that poll_job_returns [of polls 0 k 0] by (simp add: commit_config_def)
  moreover have "commit_config (Body root) polls = None"
    if "get_attrib root ''status'' = Some ''success''" "find_first root ''job'' = Some j"
      "\<forall>k. \<not> stops (polls k)"
    using that by (simp add: commit_config_def poll_job_runs_forever)
  ultimately show ?thesis by blast
qed

text \<open>
  The theorem at a job that finishes at the fourth poll, after six seconds of sleep, and
  at the job that stays active.
\<close>

theorem commit_config_returns_iff_poll_stops_witness:
  "(\<exists>r. commit_config accepted finishing = Some (r, 6)) \<and>
   commit_config accepted active_job = None"
proof -
  from accepted_has_job obtain root j where
    root: "accepted = Body root" "get_attrib root ''status'' = Some ''success''"
      "find_first root ''job'' = Some j" by blast
  have s3: "stops (finishing 3)"
    by (simp add: finishing_def job_report_def stops_def find_first_def)
  have n3: "\<forall>i<3. \<not> stops (finishing i)"
    by (simp add: finishing_def active_job_never_stops)
  have never: "\<forall>k. \<not> stops (active_job k)" by (simp add: active_job_never_stops)
  from root(2,3) s3 n3 commit_config_returns_iff_poll_stops [of root j finishing 3]
  have "\<exists>r. commit_config (Body root) finishing = Some (r, 2 * 3)" by blast
  with root(1) have a: "\<exists>r. commit_config accepted finishing = Some (r, 6)" by simp
  from root(2,3) never commit_config_returns_iff_poll_stops [of root j active_job 0]
  have "commit_config (Body root) active_job = None" by blast
  with root(1) have b: "commit_config accepted active_job = None" by simp
  from a b show ?thesis by blast
qed

text \<open>
  What the function leaves with is decided by the first \<^verbatim>\<open>result\<close> element of the answer.
  In an answer of the firewall's shape that is the element around the job, which has no
  text: a job finished with result OK is reported as \<open>False\<close>. A body that is no XML ends
  the function with the exception.
\<close>

lemma finished_job_reads_first_result:
  "commit_config accepted finishing = Some (Return False, 6)"
proof -
  have s3: "stops (finishing (0 + 3))"
    by (simp add: finishing_def job_report_def stops_def find_first_def)
  have n3: "\<forall>i<3. \<not> stops (finishing (0 + i))"
    by (simp add: finishing_def active_job_never_stops)
  have v3: "verdict (finishing (0 + 3)) = Return False"
    by (simp add: finishing_def job_report_def verdict_def find_first_def)
  from poll_job_returns [OF s3 n3, of 0] v3 show ?thesis
    by (simp add: commit_config_def accepted_def get_attrib_def find_first_def)
qed

lemma unreadable_poll_raises:
  "commit_config accepted (\<lambda>n. ParseError) = Some (Raise_ParseError, 0)"
proof -
  have "stops ((\<lambda>n. ParseError) (0 + 0))" by (simp add: stops_def)
  from poll_job_returns [OF this, of 0] show ?thesis
    by (simp add: commit_config_def accepted_def get_attrib_def find_first_def verdict_def)
qed

section \<open>Addresses as text and as numbers\<close>

text \<open>A netmask keeps the bits above the host part: the conjunction clears the host bits.\<close>

lemma netmask_push_bit: "p \<le> 32 \<Longrightarrow> netmask p = push_bit (32 - p) (mask p)"
proof -
  assume p: "p \<le> 32"
  have "(2::nat) ^ 32 = 2 ^ (32 - p) * 2 ^ p"
    using p by (simp flip: power_add)
  then show ?thesis
    by (simp add: netmask_def push_bit_eq_mult mask_eq_exp_minus_1 algebra_simps)
qed

lemma and_netmask:
  assumes "p \<le> 32" "a < 2 ^ 32"
  shows "a AND netmask p = (a div 2 ^ (32 - p)) * 2 ^ (32 - p)"
proof -
  have "a AND netmask p = push_bit (32 - p) (drop_bit (32 - p) a)"
  proof (rule bit_eqI)
    fix i
    have "i < 32" if b: "bit a i"
    proof (rule ccontr)
      assume "\<not> i < 32"
      then have "(2::nat) ^ 32 \<le> 2 ^ i" by (intro power_increasing) simp_all
      with assms(2) have "a < 2 ^ i" by linarith
      then have "a div 2 ^ i = 0" by simp
      with b show False by (simp add: bit_iff_odd)
    qed
    then show "bit (a AND netmask p) i = bit (push_bit (32 - p) (drop_bit (32 - p) a)) i"
      using assms(1)
      by (auto simp: netmask_push_bit bit_and_iff bit_push_bit_iff bit_mask_iff bit_drop_bit_eq)
  qed
  then show ?thesis by (simp add: push_bit_eq_mult drop_bit_eq_div)
qed

text \<open>Splitting at a separator and joining with it gives the text back.\<close>

lemma split_on_nonempty: "split_on c s \<noteq> []"
  by (induction s) (auto split: list.splits)

lemma join_split_on: "join [c] (split_on c s) = s"
proof (induction s)
  case Nil
  then show ?case by simp
next
  case (Cons x xs)
  obtain p ps where ps: "split_on c xs = p # ps"
    using split_on_nonempty [of c xs] by (cases "split_on c xs") auto
  show ?case
  proof (cases "x = c")
    case True
    with Cons ps show ?thesis by simp
  next
    case False
    with Cons ps show ?thesis by (cases ps) auto
  qed
qed

lemma split_on_four:
  "split_on c s = [o1, o2, o3, o4] \<Longrightarrow> s = o1 @ [c] @ o2 @ [c] @ o3 @ [c] @ o4"
  using join_split_on [of c s] by simp

text \<open>
  An octet that parses is the decimal text of its value: the parser admits no second
  spelling (no leading zero, no sign, no blank).
\<close>

lemma digit_roundtrip: "is_digit c \<Longrightarrow> digit_val c < 10 \<and> digit_char (digit_val c) = c"
  by (auto simp: is_digit_def digit_val_def digit_char_def)

lemma digit_val_zero: "is_digit c \<Longrightarrow> digit_val c = 0 \<Longrightarrow> c = CHR ''0''"
  by (auto simp: is_digit_def digit_val_def)

lemma int_of_str_snoc: "int_of_str (s @ [c]) = 10 * int_of_str s + digit_val c"
  by (simp add: int_of_str_def)

lemma int_of_str_pos:
  "list_all is_digit s \<Longrightarrow> s \<noteq> [] \<Longrightarrow> hd s \<noteq> CHR ''0'' \<Longrightarrow> 0 < int_of_str s"
proof (induction s rule: rev_induct)
  case Nil
  then show ?case by simp
next
  case (snoc c u)
  show ?case
  proof (cases "u = []")
    case True
    with snoc.prems have "is_digit c" "c \<noteq> CHR ''0''" by simp_all
    then have "digit_val c \<noteq> 0" using digit_val_zero by blast
    with True show ?thesis by (simp add: int_of_str_def)
  next
    case False
    with snoc.prems have "list_all is_digit u" "hd u \<noteq> CHR ''0''" by simp_all
    with snoc.IH False have "0 < int_of_str u" by simp
    then show ?thesis by (simp add: int_of_str_snoc)
  qed
qed

lemma str_nat_int_of_str:
  "list_all is_digit s \<Longrightarrow> s \<noteq> [] \<Longrightarrow> s = ''0'' \<or> hd s \<noteq> CHR ''0'' \<Longrightarrow>
     str_nat (int_of_str s) = s"
proof (induction s rule: rev_induct)
  case Nil
  then show ?case by simp
next
  case (snoc c u)
  from snoc.prems have c: "is_digit c" by simp
  show ?case
  proof (cases "u = []")
    case True
    with c show ?thesis
      using digit_roundtrip [of c] by (simp add: int_of_str_def str_nat.simps)
  next
    case False
    with snoc.prems have u: "list_all is_digit u" "hd u \<noteq> CHR ''0''"
      by (auto simp: neq_Nil_conv)
    with snoc.IH False have ih: "str_nat (int_of_str u) = u" by simp
    from u False have "0 < int_of_str u" by (simp add: int_of_str_pos)
    then have big: "\<not> 10 * int_of_str u + digit_val c < 10" by simp
    from c have d: "digit_val c < 10" "digit_char (digit_val c) = c"
      using digit_roundtrip by blast+
    have "str_nat (10 * int_of_str u + digit_val c) =
        str_nat ((10 * int_of_str u + digit_val c) div 10) @
        [digit_char ((10 * int_of_str u + digit_val c) mod 10)]"
      using big by (subst str_nat.simps) simp
    with d ih show ?thesis by (simp add: int_of_str_snoc)
  qed
qed

lemma parse_octet_canonical:
  "parse_octet s = Some v \<Longrightarrow> s = str_nat v \<and> v \<le> 255"
  by (auto simp: parse_octet_def str_nat_int_of_str split: if_splits)

lemma ip_int_from_string_octets:
  assumes "ip_int_from_string s = Some a"
  shows "\<exists>v1 v2 v3 v4. s = str_nat v1 @ ''.'' @ str_nat v2 @ ''.'' @ str_nat v3 @ ''.'' @ str_nat v4 \<and>
           v1 \<le> 255 \<and> v2 \<le> 255 \<and> v3 \<le> 255 \<and> v4 \<le> 255 \<and>
           a = ((v1 * 256 + v2) * 256 + v3) * 256 + v4"
proof -
  from assms obtain o1 o2 o3 o4 v1 v2 v3 v4 where
    sp: "split_on CHR ''.'' s = [o1, o2, o3, o4]" and
    po: "parse_octet o1 = Some v1" "parse_octet o2 = Some v2"
        "parse_octet o3 = Some v3" "parse_octet o4 = Some v4" and
    a: "a = ((v1 * 256 + v2) * 256 + v3) * 256 + v4"
    by (auto simp: ip_int_from_string_def split: if_splits list.splits option.splits)
  from split_on_four [OF sp] have s: "s = o1 @ ''.'' @ o2 @ ''.'' @ o3 @ ''.'' @ o4" by simp
  from po have c: "o1 = str_nat v1 \<and> v1 \<le> 255" "o2 = str_nat v2 \<and> v2 \<le> 255"
    "o3 = str_nat v3 \<and> v3 \<le> 255" "o4 = str_nat v4 \<and> v4 \<le> 255"
    by (simp_all add: parse_octet_canonical)
  from s c a have "s = str_nat v1 @ ''.'' @ str_nat v2 @ ''.'' @ str_nat v3 @ ''.'' @ str_nat v4 \<and>
      v1 \<le> 255 \<and> v2 \<le> 255 \<and> v3 \<le> 255 \<and> v4 \<le> 255 \<and>
      a = ((v1 * 256 + v2) * 256 + v3) * 256 + v4" by simp
  then show ?thesis by blast
qed

lemma first_octets:
  assumes "v1 \<le> (255::nat)" "v2 \<le> 255" "v3 \<le> 255" "v4 \<le> 255"
    and "a = ((v1 * 256 + v2) * 256 + v3) * 256 + v4"
  shows "a < 2 ^ 32" "a div 2 ^ 24 = v1" "a div 2 ^ 16 = v1 * 256 + v2"
  using assms by simp_all

lemma and_netmask_8: "a < 2 ^ 32 \<Longrightarrow> a AND netmask 8 = (a div 2 ^ 24) * 2 ^ 24"
  using and_netmask [of 8 a] by simp

lemma and_netmask_16: "a < 2 ^ 32 \<Longrightarrow> a AND netmask 16 = (a div 2 ^ 16) * 2 ^ 16"
  using and_netmask [of 16 a] by simp

lemma ipam_networks_parsed:
  "ip_network ''10.0.0.0/8'' False = Some \<lparr>network_address = 167772160, prefixlen = 8\<rparr>"
  "ip_network ''172.20.0.0/16'' False = Some \<lparr>network_address = 2886991872, prefixlen = 16\<rparr>"
  "ip_network ''172.21.0.0/16'' False = Some \<lparr>network_address = 2887057408, prefixlen = 16\<rparr>"
  "ip_network ''192.168.0.0/16'' False = Some \<lparr>network_address = 3232235520, prefixlen = 16\<rparr>"
  by (simp_all add: ip_eval)

section \<open>The managed-range checks\<close>

text \<open>The decimal texts of the octets the two checks look at.\<close>

lemma str_nat_octets:
  "str_nat 10 = ''10''" "str_nat 172 = ''172''" "str_nat 192 = ''192''" "str_nat 168 = ''168''"
  by (simp_all add: str_nat.simps digit_char_def)

text \<open>
  C10 as stated fails: the address 172.16.0.1 is in none of the networks of the IPAM
  service, and it starts with \<^verbatim>\<open>172.\<close>, so the webhook handler takes it for managed.
\<close>

theorem managed_checks_disagree:
  "ipam_is_cyber_range_ip ''172.16.0.1'' \<noteq> webhook_is_cyber_range_ip ''172.16.0.1''"
  by (simp add: ipam_is_cyber_range_ip_def cidr_list_check_def ipam_cyber_range_networks_def
      webhook_is_cyber_range_ip_def startswith_def ip_eval)

text \<open>The prefix check also accepts text that is no address.\<close>

lemma managed_checks_disagree_on_text:
  "\<not> ipam_is_cyber_range_ip ''10.example'' \<and> webhook_is_cyber_range_ip ''10.example''"
  by (simp add: ipam_is_cyber_range_ip_def cidr_list_check_def ipam_cyber_range_networks_def
      webhook_is_cyber_range_ip_def startswith_def ip_eval)

text \<open>
  C10, amended: whenever the CIDR-list check of the IPAM service accepts a string, the
  prefix check of the webhook handler accepts it too; the prefix check accepts more.
\<close>

theorem cidr_check_implies_prefix_check:
  "ipam_is_cyber_range_ip s \<Longrightarrow> webhook_is_cyber_range_ip s"
proof -
  assume m: "ipam_is_cyber_range_ip s"
  then obtain a where pa: "ip_int_from_string s = Some a"
    and inn: "in_networks a ipam_cyber_range_networks"
    by (auto simp: ipam_is_cyber_range_ip_def cidr_list_check_def split: option.splits)
  from ip_int_from_string_octets [OF pa] obtain v1 v2 v3 v4 where
    s: "s = str_nat v1 @ ''.'' @ str_nat v2 @ ''.'' @ str_nat v3 @ ''.'' @ str_nat v4" and
    v: "v1 \<le> 255" "v2 \<le> 255" "v3 \<le> 255" "v4 \<le> 255" and
    a: "a = ((v1 * 256 + v2) * 256 + v3) * 256 + v4" by blast
  note f = first_octets [OF v a]
  define x where "x = a div 2 ^ 16"
  define y where "y = a div 2 ^ 24"
  from inn have "a AND netmask 8 = 167772160 \<or> a AND netmask 16 = 2886991872 \<or>
      a AND netmask 16 = 2887057408 \<or> a AND netmask 16 = 3232235520"
    by (auto simp: ipam_cyber_range_networks_def ipam_networks_parsed contains_def split: if_splits)
  with f(1) have "y * 16777216 = 167772160 \<or> x * 65536 = 2886991872 \<or>
      x * 65536 = 2887057408 \<or> x * 65536 = 3232235520"
    by (simp add: and_netmask_8 and_netmask_16 x_def y_def)
  then have "y = 10 \<or> x = 44052 \<or> x = 44053 \<or> x = 49320" by simp
  then have "y = 10 \<or> x div 256 = 172 \<or> (x div 256 = 192 \<and> x mod 256 = 168)"
    by (elim disjE) simp_all
  moreover from f(3) v(2) have "x div 256 = v1" "x mod 256 = v2" by (simp_all add: x_def)
  moreover from f(2) have "y = v1" by (simp add: y_def)
  ultimately have "v1 = 10 \<or> v1 = 172 \<or> (v1 = 192 \<and> v2 = 168)" by simp
  then show ?thesis
  proof (elim disjE conjE)
    assume "v1 = 10"
    with s show ?thesis
      by (simp add: webhook_is_cyber_range_ip_def startswith_def str_nat_octets)
  next
    assume "v1 = 172"
    with s show ?thesis
      by (simp add: webhook_is_cyber_range_ip_def startswith_def str_nat_octets)
  next
    assume "v1 = 192" "v2 = 168"
    with s show ?thesis
      by (simp add: webhook_is_cyber_range_ip_def startswith_def str_nat_octets)
  qed
qed

text \<open>The theorem at 172.21.55.20, an address of the network 172.21.0.0/16.\<close>

theorem cidr_check_implies_prefix_check_witness:
  "ipam_is_cyber_range_ip ''172.21.55.20'' \<and> webhook_is_cyber_range_ip ''172.21.55.20''"
proof -
  have h: "ipam_is_cyber_range_ip ''172.21.55.20''"
    by (simp add: ipam_is_cyber_range_ip_def cidr_list_check_def ipam_cyber_range_networks_def
        ip_eval)
  from h cidr_check_implies_prefix_check [OF h] show ?thesis by blast
qed

end
